theory Spec2Isabelle
  imports Main "HOL-Library.Sublist"
begin

section \<open>Data model\<close>

text \<open>
  The two API structs of the package. Go strings are byte sequences, as \<open>string\<close> is;
  Go \<open>int\<close> fields are only copied, never computed with, so they are \<open>int\<close>.
  The anonymous structs \<open>Domain\<close> and \<open>Zone\<close> of a version hold one string each.
\<close>

record Record =
  Type :: string
  Name :: string
  Value :: string
  TTL :: int
  Priority :: int

record Version =
  UUIDRef :: string
  Name :: string
  CreationDate :: string
  Domain_Ref :: string
  Zone_Ref :: string
  Active :: bool

definition Record_zero :: Record where
  \<comment> \<open>the zero value of \<open>var result Record\<close>\<close>
  "Record_zero = \<lparr>Type = [], Name = [], Value = [], TTL = 0, Priority = 0\<rparr>"

definition Version_zero :: Version where
  \<comment> \<open>the zero value \<open>Version{}\<close>\<close>
  "Version_zero =
     \<lparr>UUIDRef = [], Name = [], CreationDate = [], Domain_Ref = [], Zone_Ref = [], Active = False\<rparr>"

definition DefaultBaseURL :: string where
  "DefaultBaseURL = ''https://api.online.net/api/v1''"

definition DefaultRecordPriority :: int where
  "DefaultRecordPriority = 12"

section \<open>Requests, responses and failures\<close>

text \<open>
  A URL is kept as the term the \<open>net/url\<close> calls of the source build:
  \<open>url.Parse(s)\<close> and \<open>u.JoinPath(elem...)\<close>.
\<close>

datatype URL = Parse string | JoinPath URL "string list"

datatype Payload =
    NamePayload string        \<comment> \<open>\<open>struct{ Name string `json:"name"` }\<close>\<close>
  | RecordPayload Record

record Request =
  Method :: string
  Endpoint :: URL
  Body :: "Payload option"    \<comment> \<open>\<open>None\<close>: the empty buffer of a nil payload\<close>
  Header :: "(string \<times> string) list"

record 'raw Response =
  StatusCode :: nat           \<comment> \<open>a status code of \<open>net/http\<close> is never negative\<close>
  Body :: "'raw option"       \<comment> \<open>\<open>None\<close>: \<open>io.ReadAll(resp.Body)\<close> fails\<close>

datatype http_Client = http_Client (Timeout: int)   \<comment> \<open>\<open>http.Client{Timeout: ...}\<close>, nanoseconds\<close>

record Client =
  apiToken :: string
  baseURL :: URL
  HTTPClient :: "http_Client option"   \<comment> \<open>a pointer: \<open>None\<close> is nil\<close>

datatype panic =
    SliceBoundsOutOfRange int int nat   \<comment> \<open>\<open>s[lo:hi]\<close> with \<open>len(s)\<close>\<close>
  | IndexOutOfRange int nat             \<comment> \<open>\<open>xs[i]\<close> with \<open>len(xs)\<close>\<close>
  | NilPointerDereference
  | RegexpMustCompile string

datatype error =
    MissingAPIToken
  | FailedToCreateRequestJSONBody
  | UnableToCreateRequest
  | HTTPDoError Request
  | UnexpectedResponseStatusCodeError Request nat
  | ReadResponseError Request nat
  | UnmarshalError Request nat
  | ExternalError string
  | ConfigurationIsNil
  | CredentialsMissing
  | ProviderError error
  | CouldNotFindZone string error
  | UnableToVerifyVersion string string error
  | VersionAlreadyExists string string
  | UnableToFindActiveVersion string error
  | UnableToCreateTemporaryVersion string string error
  | UnableToDuplicateRecords string string error
  | UnableToCreateRecord string string error
  | UnableToEnableVersion string error

text \<open>
  A call either returns (\<open>Inr\<close>), returns a Go error (\<open>Inl (Err e)\<close>) or panics
  (\<open>Inl (Panic p)\<close>). A panic is never wrapped by a caller: it unwinds through it.
\<close>

datatype failure = Err error | Panic panic

record ChallengeInfo =
  EffectiveFQDN :: string
  ChallengeValue :: string   \<comment> \<open>\<open>info.Value\<close>\<close>

text \<open>
  What the package calls and does not define: the JSON encoder and decoder, the request
  constructor, the HTTP round trip against the registrar (whose state is \<open>'b\<close>; a
  cancelled context or a timeout is a round trip that fails) and the two functions of
  \<open>dns01\<close>. A raw response body is of type \<open>'raw\<close>; \<open>None\<close> from a decoder is an error
  of \<open>json.Unmarshal\<close> into that type.
\<close>

record ('raw, 'b) Env =
  Encode :: "Payload \<Rightarrow> bool"
  NewRequestWithContext :: "string \<Rightarrow> URL \<Rightarrow> bool"
  Do :: "http_Client \<Rightarrow> Request \<Rightarrow> 'b \<Rightarrow> (unit + 'raw Response) \<times> 'b"
  UnmarshalVersions :: "'raw \<Rightarrow> Version list option"
  UnmarshalVersion :: "'raw \<Rightarrow> Version option"
  UnmarshalRecords :: "'raw \<Rightarrow> Record list option"
  UnmarshalRecord :: "'raw \<Rightarrow> Record option"
  GetChallengeInfo :: "string \<Rightarrow> string \<Rightarrow> ChallengeInfo"
  FindZoneByFqdn :: "string \<Rightarrow> error + string"

text \<open>The world a call runs in: the requests handed to the transport so far, oldest first,
  and the registrar's state.\<close>

record 'b World =
  requests :: "Request list"
  server :: 'b

section \<open>Go primitives\<close>

definition slice :: "'a list \<Rightarrow> int \<Rightarrow> int \<Rightarrow> failure + 'a list" where
  \<comment> \<open>\<open>s[lo:hi]\<close> on a string\<close>
  "slice s lo hi =
     (if 0 \<le> lo \<and> lo \<le> hi \<and> hi \<le> int (length s)
      then Inr (take (nat (hi - lo)) (drop (nat lo) s))
      else Inl (Panic (SliceBoundsOutOfRange lo hi (length s))))"

definition index :: "'a list \<Rightarrow> int \<Rightarrow> failure + 'a" where
  \<comment> \<open>\<open>xs[i]\<close>\<close>
  "index xs i =
     (if 0 \<le> i \<and> i < int (length xs) then Inr (xs ! nat i)
      else Inl (Panic (IndexOutOfRange i (length xs))))"

fun IndexFunc :: "'a list \<Rightarrow> ('a \<Rightarrow> bool) \<Rightarrow> int" where
  \<comment> \<open>\<open>slices.IndexFunc\<close>: the first index satisfying \<open>f\<close>, or -1\<close>
  "IndexFunc [] f = -1"
| "IndexFunc (x # xs) f =
     (if f x then 0 else (let i = IndexFunc xs f in if i = -1 then -1 else i + 1))"

definition HasPrefix :: "string \<Rightarrow> string \<Rightarrow> bool" where
  \<comment> \<open>\<open>strings.HasPrefix(s, prefix)\<close>\<close>
  "HasPrefix s p = (length p \<le> length s \<and> take (length p) s = p)"

section \<open>The client\<close>

definition NewClient :: "string \<Rightarrow> error + Client" where
  "NewClient token =
     (if token = [] then Inl MissingAPIToken
      else Inr \<lparr>apiToken = token, baseURL = Parse DefaultBaseURL,
                HTTPClient = Some (http_Client (5 * 1000000000))\<rparr>)"

definition newJSONRequest ::
  "('raw, 'b) Env \<Rightarrow> Client \<Rightarrow> string \<Rightarrow> URL \<Rightarrow> Payload option \<Rightarrow> failure + Request" where
  "newJSONRequest env c method endpoint payload =
     (if (case payload of None \<Rightarrow> False | Some p \<Rightarrow> \<not> Encode env p)
      then Inl (Err FailedToCreateRequestJSONBody)
      else if \<not> NewRequestWithContext env method endpoint
      then Inl (Err UnableToCreateRequest)
      else Inr \<lparr>Method = method, Endpoint = endpoint, Body = payload,
                Header = [(''Accept'', ''application/json''),
                          (''Authorization'', ''Bearer '' @ apiToken c)] @
                         (case payload of None \<Rightarrow> []
                          | Some p \<Rightarrow> [(''Content-Type'', ''application/json'')])\<rparr>)"

text \<open>
  \<open>do(req, result)\<close>: \<open>unmarshal = None\<close> is the call with \<open>result == nil\<close>; otherwise
  \<open>result\<close> is the value the pointer holds before the call and the returned value is
  what it holds after. The request is logged when it is handed to the transport.
\<close>

definition do ::
  "('raw, 'b) Env \<Rightarrow> Client \<Rightarrow> Request \<Rightarrow> ('raw \<Rightarrow> 'a option) option \<Rightarrow> 'a \<Rightarrow> 'b World
     \<Rightarrow> (failure + 'a) \<times> 'b World" where
  "do env c req unmarshal result w =
     (case HTTPClient c of
        None \<Rightarrow> (Inl (Panic NilPointerDereference), w)
      | Some hc \<Rightarrow>
          (case Do env hc req (server w) of
             (r, s') \<Rightarrow>
               (let w' = \<lparr>requests = requests w @ [req], server = s'\<rparr> in
                case r of
                  Inl u \<Rightarrow> (Inl (Err (HTTPDoError req)), w')
                | Inr resp \<Rightarrow>
                    if StatusCode resp div 100 \<noteq> 2
                    then (Inl (Err (UnexpectedResponseStatusCodeError req (StatusCode resp))), w')
                    else (case unmarshal of
                            None \<Rightarrow> (Inr result, w')
                          | Some decode \<Rightarrow>
                              (case Response.Body resp of
                                 None \<Rightarrow> (Inl (Err (ReadResponseError req (StatusCode resp))), w')
                               | Some raw \<Rightarrow>
                                   (case decode raw of
                                      None \<Rightarrow> (Inl (Err (UnmarshalError req (StatusCode resp))), w')
                                    | Some v \<Rightarrow> (Inr v, w')))))))"

definition ListAllVersions ::
  "('raw, 'b) Env \<Rightarrow> Client \<Rightarrow> string \<Rightarrow> 'b World \<Rightarrow> (failure + Version list) \<times> 'b World" where
  "ListAllVersions env c authZone w =
     (case slice authZone 0 (int (length authZone) - 1) of
        Inl p \<Rightarrow> (Inl p, w)
      | Inr domainName \<Rightarrow>
          (case newJSONRequest env c ''GET''
                  (JoinPath (baseURL c) [''domain'', domainName, ''version'']) None of
             Inl e \<Rightarrow> (Inl e, w)
           | Inr req \<Rightarrow> do env c req (Some (UnmarshalVersions env)) [] w))"

definition FindActiveZoneVersion ::
  "('raw, 'b) Env \<Rightarrow> Client \<Rightarrow> string \<Rightarrow> 'b World \<Rightarrow> (failure + Version) \<times> 'b World" where
  "FindActiveZoneVersion env c authZone w =
     (case ListAllVersions env c authZone w of
        (Inl e, w') \<Rightarrow> (Inl e, w')
      | (Inr versions, w') \<Rightarrow>
          (let activeidx = IndexFunc versions Active
           in (index versions activeidx, w')))"

definition FindZoneVersion ::
  "('raw, 'b) Env \<Rightarrow> Client \<Rightarrow> string \<Rightarrow> string \<Rightarrow> 'b World
     \<Rightarrow> (failure + Version) \<times> 'b World" where
  "FindZoneVersion env c authZone versionName w =
     (case ListAllVersions env c authZone w of
        (Inl e, w') \<Rightarrow> (Inl e, w')
      | (Inr versions, w') \<Rightarrow>
          (let activeidx = IndexFunc versions (\<lambda>v. Version.Name v = versionName)
           in if activeidx > -1 then (index versions activeidx, w')
              else (Inr Version_zero, w')))"

definition GetZoneVersion ::
  "('raw, 'b) Env \<Rightarrow> Client \<Rightarrow> string \<Rightarrow> string \<Rightarrow> 'b World
     \<Rightarrow> (failure + Version) \<times> 'b World" where
  "GetZoneVersion env c authZone versionUUID w =
     (case slice authZone 0 (int (length authZone) - 1) of
        Inl p \<Rightarrow> (Inl p, w)
      | Inr domainName \<Rightarrow>
          (case newJSONRequest env c ''GET''
                  (JoinPath (baseURL c) [''domain'', domainName, ''version'', versionUUID]) None of
             Inl e \<Rightarrow> (Inl e, w)
           | Inr req \<Rightarrow> do env c req (Some (UnmarshalVersion env)) Version_zero w))"

definition CreateZoneVersion ::
  "('raw, 'b) Env \<Rightarrow> Client \<Rightarrow> string \<Rightarrow> string \<Rightarrow> 'b World
     \<Rightarrow> (failure + Version) \<times> 'b World" where
  "CreateZoneVersion env c authZone versionName w =
     (case slice authZone 0 (int (length authZone) - 1) of
        Inl p \<Rightarrow> (Inl p, w)
      | Inr domainName \<Rightarrow>
          (let payload = NamePayload ''lego_tmp'' in
           case newJSONRequest env c ''POST''
                  (JoinPath (baseURL c) [''domain'', domainName, ''version'']) (Some payload) of
             Inl e \<Rightarrow> (Inl e, w)
           | Inr req \<Rightarrow> do env c req (Some (UnmarshalVersion env)) Version_zero w))"

definition DeleteZoneVersion ::
  "('raw, 'b) Env \<Rightarrow> Client \<Rightarrow> string \<Rightarrow> string \<Rightarrow> 'b World
     \<Rightarrow> (failure + unit) \<times> 'b World" where
  "DeleteZoneVersion env c authZone versionUUID w =
     (case slice authZone 0 (int (length authZone) - 1) of
        Inl p \<Rightarrow> (Inl p, w)
      | Inr domainName \<Rightarrow>
          (case newJSONRequest env c ''DELETE''
                  (JoinPath (baseURL c) [''domain'', domainName, ''version'', versionUUID]) None of
             Inl e \<Rightarrow> (Inl e, w)
           | Inr req \<Rightarrow> do env c req None () w))"

definition GetAllRecords ::
  "('raw, 'b) Env \<Rightarrow> Client \<Rightarrow> string \<Rightarrow> string \<Rightarrow> 'b World
     \<Rightarrow> (failure + Record list) \<times> 'b World" where
  "GetAllRecords env c authZone versionUUID w =
     (case slice authZone 0 (int (length authZone) - 1) of
        Inl p \<Rightarrow> (Inl p, w)
      | Inr domainName \<Rightarrow>
          (case newJSONRequest env c ''GET''
                  (JoinPath (baseURL c) [''domain'', domainName, ''version'', versionUUID, ''zone''])
                  None of
             Inl e \<Rightarrow> (Inl e, w)
           | Inr req \<Rightarrow> do env c req (Some (UnmarshalRecords env)) [] w))"

definition GetRecord ::
  "('raw, 'b) Env \<Rightarrow> Client \<Rightarrow> string \<Rightarrow> string \<Rightarrow> string \<Rightarrow> string \<Rightarrow> 'b World
     \<Rightarrow> (failure + Record) \<times> 'b World" where
  "GetRecord env c authZone versionUUID recordName recordType w =
     (case GetAllRecords env c authZone versionUUID w of
        (Inl e, w') \<Rightarrow> (Inl e, w')
      | (Inr allRecords, w') \<Rightarrow>
          (let recordIdx = IndexFunc allRecords
                 (\<lambda>r. Record.Name r = recordName \<and> Type r = recordType)
           in if recordIdx > -1 then (index allRecords recordIdx, w')
              else (Inr Record_zero, w')))"

definition ReadVersionUUID ::
  "('raw, 'b) Env \<Rightarrow> Client \<Rightarrow> string \<Rightarrow> string \<Rightarrow> 'b World
     \<Rightarrow> (failure + string) \<times> 'b World" where
  "ReadVersionUUID env c authZone versionUUID w =
     (case GetRecord env c authZone versionUUID ''lego'' ''TXT'' w of
        (Inl e, w') \<Rightarrow> (Inl e, w')
      | (Inr record, w') \<Rightarrow>
          (if HasPrefix (Value record) ''active_version:''
           then (slice (Value record) 15 (int (length (Value record))), w')
           else (Inr [], w')))"

definition EnableZone ::
  "('raw, 'b) Env \<Rightarrow> Client \<Rightarrow> string \<Rightarrow> string \<Rightarrow> 'b World
     \<Rightarrow> (failure + unit) \<times> 'b World" where
  "EnableZone env c authZone versionID w =
     (case slice authZone 0 (int (length authZone) - 1) of
        Inl p \<Rightarrow> (Inl p, w)
      | Inr domainName \<Rightarrow>
          (case newJSONRequest env c ''PATCH''
                  (JoinPath (baseURL c) [''domain'', domainName, ''version'', versionID, ''enable''])
                  None of
             Inl e \<Rightarrow> (Inl e, w)
           | Inr req \<Rightarrow> do env c req None () w))"

definition CreateRecord ::
  "('raw, 'b) Env \<Rightarrow> Client \<Rightarrow> string \<Rightarrow> string \<Rightarrow> Record \<Rightarrow> 'b World
     \<Rightarrow> (failure + Record) \<times> 'b World" where
  "CreateRecord env c authZone versionID record w =
     (case slice authZone 0 (int (length authZone) - 1) of
        Inl p \<Rightarrow> (Inl p, w)
      | Inr domainName \<Rightarrow>
          (let payload = RecordPayload
                 \<lparr>Type = Type record, Name = Record.Name record, Value = Value record,
                  TTL = TTL record, Priority = DefaultRecordPriority\<rparr> in
           case newJSONRequest env c ''POST''
                  (JoinPath (baseURL c) [''domain'', domainName, ''version'', versionID, ''zone''])
                  (Some payload) of
             Inl e \<Rightarrow> (Inl e, w)
           | Inr req \<Rightarrow> do env c req (Some (UnmarshalRecord env)) Record_zero w))"

section \<open>Regular expressions\<close>

text \<open>
  The fragment of the syntax of \<open>regexp\<close> that the pattern of the source uses: literal
  characters, the text anchors, capture groups and alternation. The constructors are the
  operators of \<open>regexp/syntax\<close>. The parser reads the pattern left to right with a stack of
  open groups; a frame holds the finished alternatives of its group and the items of the
  alternative being read (\<open>cur\<close> is the frame of the innermost open group). Alternation binds weakest, so an anchor belongs to the one
  alternative it stands in.
\<close>

datatype regexp =
    EmptyMatch
  | Literal char
  | BeginText
  | EndText
  | Capture regexp
  | Concat regexp regexp
  | Alternate regexp regexp

fun mk_concat :: "regexp list \<Rightarrow> regexp" where
  "mk_concat [] = EmptyMatch"
| "mk_concat [r] = r"
| "mk_concat (r # rs) = Concat r (mk_concat rs)"

fun mk_alternate :: "regexp list \<Rightarrow> regexp" where
  "mk_alternate [] = EmptyMatch"
| "mk_alternate [r] = r"
| "mk_alternate (r # rs) = Alternate r (mk_alternate rs)"

type_synonym frame = "regexp list \<times> regexp list"

definition close_frame :: "frame \<Rightarrow> regexp" where
  "close_frame f = mk_alternate (fst f @ [mk_concat (snd f)])"

fun parse :: "string \<Rightarrow> frame \<Rightarrow> frame list \<Rightarrow> regexp option" where
  "parse [] cur stack = (if stack = [] then Some (close_frame cur) else None)"
| "parse (c # cs) cur stack =
     (if c = CHR ''('' then parse cs ([], []) (cur # stack)
      else if c = CHR '')'' then
        (case stack of
           [] \<Rightarrow> None
         | parent # rest \<Rightarrow>
             parse cs (fst parent, snd parent @ [Capture (close_frame cur)]) rest)
      else if c = CHR ''|'' then parse cs (fst cur @ [mk_concat (snd cur)], []) stack
      else if c = CHR ''^'' then parse cs (fst cur, snd cur @ [BeginText]) stack
      else if c = CHR ''$'' then parse cs (fst cur, snd cur @ [EndText]) stack
      else if c \<in> set ''.+*?[]{}'' \<or> c = CHR 0x5C then None
      else parse cs (fst cur, snd cur @ [Literal c]) stack)"

definition MustCompile :: "string \<Rightarrow> failure + regexp" where
  "MustCompile pattern =
     (case parse pattern ([], []) [] of
        None \<Rightarrow> Inl (Panic (RegexpMustCompile pattern))
      | Some re \<Rightarrow> Inr re)"

text \<open>\<open>ends re s i\<close>: the positions where a match of \<open>re\<close> that starts at position \<open>i\<close> of
  the text \<open>s\<close> can end.\<close>

fun ends :: "regexp \<Rightarrow> string \<Rightarrow> nat \<Rightarrow> nat list" where
  "ends EmptyMatch s i = [i]"
| "ends (Literal c) s i = (if i < length s \<and> s ! i = c then [Suc i] else [])"
| "ends BeginText s i = (if i = 0 then [i] else [])"
| "ends EndText s i = (if i = length s then [i] else [])"
| "ends (Capture r) s i = ends r s i"
| "ends (Concat r1 r2) s i = concat (map (ends r2 s) (ends r1 s i))"
| "ends (Alternate r1 r2) s i = ends r1 s i @ ends r2 s i"

definition MatchString :: "regexp \<Rightarrow> string \<Rightarrow> bool" where
  \<comment> \<open>\<open>re.MatchString(s)\<close>: some substring of \<open>s\<close> matches\<close>
  "MatchString re s = list_ex (\<lambda>i. ends re s i \<noteq> []) [0..<Suc (length s)]"

section \<open>Duplicating the records of a version\<close>

fun duplicate_loop ::
  "('raw, 'b) Env \<Rightarrow> Client \<Rightarrow> string \<Rightarrow> string \<Rightarrow> regexp \<Rightarrow> Record list \<Rightarrow> 'b World
     \<Rightarrow> (failure + unit) \<times> 'b World" where
  \<comment> \<open>the \<open>for _, r := range records\<close> of \<open>DuplicateZoneVersionRecords\<close>\<close>
  "duplicate_loop env c authZone targetVersionUUID re [] w = (Inr (), w)"
| "duplicate_loop env c authZone targetVersionUUID re (r # rs) w =
     (if MatchString re (Type r) then
        (case CreateRecord env c authZone targetVersionUUID
                \<lparr>Type = Type r, Name = Record.Name r, Value = Value r, TTL = TTL r,
                 Priority = 0\<rparr> w of
           (Inl e, w') \<Rightarrow> (Inl e, w')
         | (Inr created, w') \<Rightarrow> duplicate_loop env c authZone targetVersionUUID re rs w')
      else duplicate_loop env c authZone targetVersionUUID re rs w)"

definition DuplicateZoneVersionRecords ::
  "('raw, 'b) Env \<Rightarrow> Client \<Rightarrow> string \<Rightarrow> string \<Rightarrow> string \<Rightarrow> 'b World
     \<Rightarrow> (failure + unit) \<times> 'b World" where
  "DuplicateZoneVersionRecords env c authZone sourceVersionUUID targetVersionUUID w =
     (case GetAllRecords env c authZone sourceVersionUUID w of
        (Inl e, w') \<Rightarrow> (Inl e, w')
      | (Inr records, w') \<Rightarrow>
          (case MustCompile ''^(A)|(AAAA)|(CNAME)|(MX)|(SRV)|(TXT)$'' of
             Inl p \<Rightarrow> (Inl p, w')
           | Inr allowedTypesRegexp \<Rightarrow>
               duplicate_loop env c authZone targetVersionUUID allowedTypesRegexp records w'))"

section \<open>The DNS provider\<close>

record Config =
  BaseURL :: string
  APIToken :: string
  TempZoneVersionName :: string
  HTTPClient :: "http_Client option"
  PropagationTimeout :: int
  PollingInterval :: int
  TTL :: int

record DNSProvider =
  config :: Config
  client :: Client
  activeVersionUUID :: string
  tempVersionUUID :: string

definition NewDNSProviderConfig :: "Config option \<Rightarrow> error + DNSProvider" where
  \<comment> \<open>the second \<open>if err != nil\<close> of the source tests the error already found nil\<close>
  "NewDNSProviderConfig cfg =
     (case cfg of
        None \<Rightarrow> Inl ConfigurationIsNil
      | Some conf \<Rightarrow>
          if APIToken conf = [] then Inl CredentialsMissing
          else (case NewClient (APIToken conf) of
                  Inl err \<Rightarrow> Inl (ProviderError err)
                | Inr cl \<Rightarrow>
                    Inr \<lparr>config = conf,
                         client = cl\<lparr>Client.HTTPClient := Config.HTTPClient conf\<rparr>,
                         activeVersionUUID = [], tempVersionUUID = []\<rparr>))"

fun Replace_once :: "string \<Rightarrow> string \<Rightarrow> string \<Rightarrow> string" where
  \<comment> \<open>\<open>strings.Replace(s, old, new, 1)\<close>\<close>
  "Replace_once [] old new = (if old = [] then new else [])"
| "Replace_once (c # cs) old new =
     (if prefix old (c # cs) then new @ drop (length old) (c # cs)
      else c # Replace_once cs old new)"

text \<open>
  \<open>fmt.Errorf("...: %w", err)\<close> in the branch \<open>if err != nil\<close> of a step: a returned
  error is wrapped with the message of the step. A panic of the call is not an error
  value; it never reaches the branch and unwinds through the caller as it is.
\<close>

definition wrap :: "(error \<Rightarrow> error) \<Rightarrow> failure \<Rightarrow> failure" where
  "wrap message f = (case f of Err err \<Rightarrow> Err (message err) | Panic p \<Rightarrow> Panic p)"

text \<open>
  \<open>Present\<close> writes the two UUID fields of the provider as it goes, so it returns the
  provider with the outcome.
\<close>

definition Present ::
  "('raw, 'b) Env \<Rightarrow> DNSProvider \<Rightarrow> string \<Rightarrow> string \<Rightarrow> string \<Rightarrow> 'b World
     \<Rightarrow> (failure + unit) \<times> DNSProvider \<times> 'b World" where
  "Present env d domainName token keyAuth w =
    (let info = GetChallengeInfo env domainName keyAuth;
         label = TempZoneVersionName (config d) in
     case FindZoneByFqdn env (EffectiveFQDN info) of
       Inl err \<Rightarrow> (Inl (Err (CouldNotFindZone domainName err)), d, w)
     | Inr authZone \<Rightarrow>
    (case FindZoneVersion env (client d) authZone label w of
       (Inl f, w1) \<Rightarrow> (Inl (wrap (UnableToVerifyVersion label authZone) f), d, w1)
     | (Inr version, w1) \<Rightarrow>
    if version \<noteq> Version_zero
    then (Inl (Err (VersionAlreadyExists label authZone)), d, w1)
    else
    (case FindActiveZoneVersion env (client d) authZone w1 of
       (Inl f, w2) \<Rightarrow> (Inl (wrap (UnableToFindActiveVersion authZone) f), d, w2)
     | (Inr activeZoneVersion, w2) \<Rightarrow>
    (let d1 = d\<lparr>activeVersionUUID := UUIDRef activeZoneVersion\<rparr> in
     case CreateZoneVersion env (client d1) authZone label w2 of
       (Inl f, w3) \<Rightarrow> (Inl (wrap (UnableToCreateTemporaryVersion label authZone) f), d1, w3)
     | (Inr temporaryVersion, w3) \<Rightarrow>
    (let d2 = d1\<lparr>tempVersionUUID := UUIDRef temporaryVersion\<rparr> in
     case DuplicateZoneVersionRecords env (client d2) authZone
            (UUIDRef activeZoneVersion) (UUIDRef temporaryVersion) w3 of
       (Inl f, w4) \<Rightarrow>
         (Inl (wrap (UnableToDuplicateRecords (Version.Name activeZoneVersion)
                       (Version.Name temporaryVersion)) f), d2, w4)
     | (Inr u, w4) \<Rightarrow>
    (let recordName = Replace_once (EffectiveFQDN info) (''.'' @ authZone) [];
         record = \<lparr>Type = ''TXT'', Name = recordName, Value = ChallengeValue info,
                   TTL = Config.TTL (config d2), Priority = 0\<rparr> in
     case CreateRecord env (client d2) authZone (UUIDRef temporaryVersion) record w4 of
       (Inl f, w5) \<Rightarrow>
         (Inl (wrap (UnableToCreateRecord (Record.Name record)
                       (Version.Name temporaryVersion)) f), d2, w5)
     | (Inr created, w5) \<Rightarrow>
    (case EnableZone env (client d2) authZone (UUIDRef temporaryVersion) w5 of
       (Inl f, w6) \<Rightarrow>
         (Inl (wrap (UnableToEnableVersion (Version.Name temporaryVersion)) f), d2, w6)
     | (Inr u, w6) \<Rightarrow> (Inr (), d2, w6))))))))"

section \<open>A registrar to run the client against\<close>

text \<open>
  Modelled from the spec: the registrar's REST service, which is no code of this
  repository. It follows the endpoint table of the spec's section on external
  interfaces and the descriptions of the operations: listing and getting versions,
  creating a new inactive empty version under the name of the payload, deleting a
  version that is not active, enabling a version (which deactivates every other one),
  and listing and creating the records of a version. It serves one domain; \<open>unused\<close>
  holds the UUIDs it has not given out yet, the next one first.
\<close>

datatype Wire =
    WVersions "Version list"
  | WVersion Version
  | WRecords "Record list"
  | WRecord Record

record Registrar =
  served :: string
  versions :: "Version list"
  zones :: "(string \<times> Record list) list"
  unused :: "string list"

fun path :: "URL \<Rightarrow> string list" where
  "path (Parse s) = []"
| "path (JoinPath u elems) = path u @ elems"

definition reply :: "nat \<Rightarrow> Wire option \<Rightarrow> Registrar \<Rightarrow> (unit + Wire Response) \<times> Registrar" where
  "reply status body s = (Inr \<lparr>StatusCode = status, Body = body\<rparr>, s)"

definition registrar ::
  "http_Client \<Rightarrow> Request \<Rightarrow> Registrar \<Rightarrow> (unit + Wire Response) \<times> Registrar" where
  "registrar hc req s =
    (let m = Method req; p = path (Endpoint req) in
     if take 2 p \<noteq> [''domain'', served s] then reply 404 None s
     else
     (case drop 2 p of
        [a] \<Rightarrow>
          if a \<noteq> ''version'' then reply 404 None s
          else if m = ''GET'' then reply 200 (Some (WVersions (versions s))) s
          else if m = ''POST'' then
            (case (Request.Body req, unused s) of
               (Some (NamePayload n), u # us) \<Rightarrow>
                 (let v = \<lparr>UUIDRef = u, Name = n, CreationDate = [], Domain_Ref = [],
                           Zone_Ref = [], Active = False\<rparr>
                  in reply 200 (Some (WVersion v))
                       (s\<lparr>versions := versions s @ [v], zones := zones s @ [(u, [])],
                          unused := us\<rparr>))
             | other \<Rightarrow> reply 400 None s)
          else reply 405 None s
      | [a, u] \<Rightarrow>
          if a \<noteq> ''version'' then reply 404 None s
          else
          (case find (\<lambda>v. UUIDRef v = u) (versions s) of
             None \<Rightarrow> reply 404 None s
           | Some v \<Rightarrow>
               if m = ''GET'' then reply 200 (Some (WVersion v)) s
               else if m = ''DELETE'' then
                 (if Active v then reply 409 None s
                  else reply 204 None
                         (s\<lparr>versions := filter (\<lambda>v. UUIDRef v \<noteq> u) (versions s),
                            zones := filter (\<lambda>z. fst z \<noteq> u) (zones s)\<rparr>))
               else reply 405 None s)
      | [a, u, b] \<Rightarrow>
          if a \<noteq> ''version'' then reply 404 None s
          else
          (case find (\<lambda>v. UUIDRef v = u) (versions s) of
             None \<Rightarrow> reply 404 None s
           | Some v \<Rightarrow>
               if b = ''enable'' then
                 (if m = ''PATCH'' then
                    reply 200 None
                      (s\<lparr>versions := map (\<lambda>v. v\<lparr>Active := (UUIDRef v = u)\<rparr>) (versions s)\<rparr>)
                  else reply 405 None s)
               else if b = ''zone'' then
                 (if m = ''GET'' then
                    reply 200 (Some (WRecords (case map_of (zones s) u of
                                                 None \<Rightarrow> [] | Some rs \<Rightarrow> rs))) s
                  else if m = ''POST'' then
                    (case Request.Body req of
                       Some (RecordPayload r) \<Rightarrow>
                         reply 200 (Some (WRecord r))
                           (s\<lparr>zones := map (\<lambda>z. if fst z = u then (fst z, snd z @ [r]) else z)
                                           (zones s)\<rparr>)
                     | other \<Rightarrow> reply 400 None s)
                  else reply 405 None s)
               else reply 404 None s)
      | other \<Rightarrow> reply 404 None s))"

text \<open>
  The environment of the runs below. The encoder and the request constructor succeed and
  a body decodes into the type it was written from. The two functions of \<open>dns01\<close> are
  stand-ins with the shape of the real ones: the challenge name is the domain under
  \<open>_acme-challenge\<close>, and the zone is the domain itself.
\<close>

definition registrarEnv :: "(Wire, Registrar) Env" where
  "registrarEnv =
     \<lparr>Encode = (\<lambda>p. True),
      NewRequestWithContext = (\<lambda>m u. True),
      Do = registrar,
      UnmarshalVersions = (\<lambda>raw. case raw of WVersions vs \<Rightarrow> Some vs | other \<Rightarrow> None),
      UnmarshalVersion = (\<lambda>raw. case raw of WVersion v \<Rightarrow> Some v | other \<Rightarrow> None),
      UnmarshalRecords = (\<lambda>raw. case raw of WRecords rs \<Rightarrow> Some rs | other \<Rightarrow> None),
      UnmarshalRecord = (\<lambda>raw. case raw of WRecord r \<Rightarrow> Some r | other \<Rightarrow> None),
      GetChallengeInfo = (\<lambda>domainName keyAuth.
        \<lparr>EffectiveFQDN = ''_acme-challenge.'' @ domainName @ ''.'', ChallengeValue = keyAuth\<rparr>),
      FindZoneByFqdn = (\<lambda>fqdn.
        if prefix ''_acme-challenge.'' fqdn then Inr (drop 16 fqdn)
        else Inl (ExternalError ''no zone''))\<rparr>"

text \<open>The same environment behind a transport that fails the request numbered \<open>n\<close> (from 0)
  and passes every other one to the registrar.\<close>

definition failingEnv :: "(Wire, nat \<times> Registrar) Env" where
  "failingEnv =
     \<lparr>Encode = Encode registrarEnv,
      NewRequestWithContext = NewRequestWithContext registrarEnv,
      Do = (\<lambda>hc req s.
        case fst s of
          0 \<Rightarrow> (Inl (), (0, snd s))
        | Suc n \<Rightarrow> (case registrar hc req (snd s) of (r, s') \<Rightarrow> (r, (n, s')))),
      UnmarshalVersions = UnmarshalVersions registrarEnv,
      UnmarshalVersion = UnmarshalVersion registrarEnv,
      UnmarshalRecords = UnmarshalRecords registrarEnv,
      UnmarshalRecord = UnmarshalRecord registrarEnv,
      GetChallengeInfo = GetChallengeInfo registrarEnv,
      FindZoneByFqdn = FindZoneByFqdn registrarEnv\<rparr>"

definition sent :: "'b World \<Rightarrow> 'b World \<Rightarrow> Request list" where
  \<comment> \<open>the requests handed to the transport between two worlds\<close>
  "sent w w' = drop (length (requests w)) (requests w')"

section \<open>Example inputs\<close>

text \<open>A client as \<open>NewClient "token"\<close> returns it, and a registrar serving \<open>example.com\<close>
  with one active version among five.\<close>

definition example_client :: Client where
  "example_client =
     \<lparr>apiToken = ''token'', baseURL = Parse DefaultBaseURL,
      HTTPClient = Some (http_Client 5000000000)\<rparr>"

definition mk_version :: "string \<Rightarrow> string \<Rightarrow> bool \<Rightarrow> Version" where
  "mk_version u n a =
     \<lparr>UUIDRef = u, Name = n, CreationDate = [], Domain_Ref = [], Zone_Ref = [], Active = a\<rparr>"

definition mk_record :: "string \<Rightarrow> string \<Rightarrow> string \<Rightarrow> int \<Rightarrow> Record" where
  "mk_record t n v ttl = \<lparr>Type = t, Name = n, Value = v, TTL = ttl, Priority = 0\<rparr>"

definition example_registrar :: Registrar where
  "example_registrar =
     \<lparr>served = ''example.com'',
      versions = [mk_version ''v-old'' ''notActiveVersion002'' False,
                  mk_version ''v-live'' ''activeVersion001'' True,
                  mk_version ''v-three'' ''three'' False,
                  mk_version ''v-four'' ''four'' False,
                  mk_version ''v-empty'' ''empty'' False],
      zones = [(''v-old'', [mk_record ''A'' ''www'' ''10.0.0.2'' 300,
                            mk_record ''AFSDB'' ''@'' ''1 afs.example.com.'' 300,
                            mk_record ''TXT'' ''lego'' ''version:none'' 300]),
               (''v-live'', [mk_record ''A'' ''test01'' ''10.0.0.1'' 300,
                             mk_record ''TXT'' ''test04'' ''text'' 300,
                             mk_record ''A'' ''test04'' ''127.0.0.1'' 86400,
                             mk_record ''TXT'' ''lego'' ''active_version:thisone'' 300,
                             (mk_record ''MX'' ''@'' ''mail.example.com.'' 300)\<lparr>Priority := 10\<rparr>]),
               (''v-three'', [mk_record ''A'' ''test01'' ''10.0.0.1'' 300,
                              mk_record ''TXT'' ''test04'' ''text'' 300,
                              mk_record ''A'' ''test04'' ''127.0.0.1'' 86400]),
               (''v-four'', [mk_record ''A'' ''www'' ''10.0.0.4'' 300,
                             mk_record ''NS'' ''@'' ''ns.example.com.'' 300,
                             mk_record ''TXT'' ''@'' ''hello'' 300,
                             mk_record ''SOA'' ''@'' ''ns.example.com. root.example.com.'' 300]),
               (''v-empty'', [])],
      unused = [''v-new-1'', ''v-new-2'']\<rparr>"

definition inactive_registrar :: Registrar where
  \<comment> \<open>the same registrar with no version active\<close>
  "inactive_registrar =
     example_registrar\<lparr>versions := map (\<lambda>v. v\<lparr>Active := False\<rparr>) (versions example_registrar)\<rparr>"

definition example_world :: "Registrar World" where
  "example_world = \<lparr>requests = [], server = example_registrar\<rparr>"

definition example_config :: "string \<Rightarrow> Config" where
  "example_config label =
     \<lparr>BaseURL = ''https://registrar.example.test/api'', APIToken = ''token'',
      TempZoneVersionName = label, HTTPClient = Some (http_Client 10000000000),
      PropagationTimeout = 60000000000, PollingInterval = 2000000000, TTL = 120\<rparr>"

definition example_provider :: "string \<Rightarrow> DNSProvider" where
  "example_provider label =
     \<lparr>config = example_config label,
      client = example_client\<lparr>Client.HTTPClient := Some (http_Client 10000000000)\<rparr>,
      activeVersionUUID = [], tempVersionUUID = []\<rparr>"

definition domain_segment :: "Request \<Rightarrow> string option" where
  \<comment> \<open>the path element a request has after the element \<open>domain\<close>\<close>
  "domain_segment r =
     (case Endpoint r of
        JoinPath u (a # d # rest) \<Rightarrow> if a = ''domain'' then Some d else None
      | other \<Rightarrow> None)"

section \<open>Basic facts\<close>

lemma slice_authZone:
  "slice authZone 0 (int (length authZone) - 1) =
     (if authZone = [] then Inl (Panic (SliceBoundsOutOfRange 0 (- 1) 0))
      else Inr (butlast authZone))"
  by (cases authZone rule: rev_cases) (simp_all add: slice_def)

lemma slice_from:
  "int n \<le> int (length s) \<Longrightarrow> slice s (int n) (int (length s)) = Inr (drop n s)"
  by (simp add: slice_def)

lemma HasPrefix_prefix: "HasPrefix s p = prefix p s"
  by (auto simp: HasPrefix_def prefix_def) (metis append_eq_conv_conj)

lemma IndexFunc_find:
  "(case find f xs of
      None \<Rightarrow> IndexFunc xs f = - 1
    | Some x \<Rightarrow> 0 \<le> IndexFunc xs f \<and> index xs (IndexFunc xs f) = Inr x)"
proof (induction xs)
  case Nil
  show ?case by simp
next
  case (Cons a xs)
  show ?case
  proof (cases "f a")
    case True
    then show ?thesis by (simp add: index_def)
  next
    case False
    with Cons show ?thesis
      by (auto simp: index_def Let_def nat_add_distrib split: option.splits if_splits)
  qed
qed

lemma index_IndexFunc:
  "(if IndexFunc xs f > - 1 then index xs (IndexFunc xs f) else Inr z) =
     Inr (case find f xs of None \<Rightarrow> z | Some x \<Rightarrow> x)"
  using IndexFunc_find [where f = f and xs = xs] by (auto split: option.splits)

lemma requests_do:
  "requests (snd (do env c req unmarshal result w)) =
     (if Client.HTTPClient c = None then requests w else requests w @ [req])"
  by (simp add: do_def Let_def split: option.splits prod.splits sum.splits)

lemma sent_do:
  "sent w (snd (do env c req unmarshal result w)) =
     (if Client.HTTPClient c = None then [] else [req])"
  by (simp add: sent_def requests_do)

lemma sent_same: "sent w w = []"
  by (simp add: sent_def)

lemma GetRecord_find:
  "GetAllRecords env c authZone versionUUID w = (Inr allRecords, w') \<Longrightarrow>
     GetRecord env c authZone versionUUID recordName recordType w =
       (Inr (case find (\<lambda>r. Record.Name r = recordName \<and> Type r = recordType) allRecords of
               None \<Rightarrow> Record_zero
             | Some r \<Rightarrow> r), w')"
  using index_IndexFunc [where xs = allRecords and z = Record_zero
      and f = "\<lambda>r. Record.Name r = recordName \<and> Type r = recordType"]
  by (auto simp: GetRecord_def Let_def split: if_splits)

lemma GetRecord_error:
  "GetAllRecords env c authZone versionUUID w = (Inl e, w') \<Longrightarrow>
     GetRecord env c authZone versionUUID recordName recordType w = (Inl e, w')"
  by (simp add: GetRecord_def)

lemma find_filter_single: "filter P xs = [v] \<Longrightarrow> find P xs = Some v"
  by (induction xs) (auto split: if_splits)

lemma find_None_list_ex: "find P xs = None \<longleftrightarrow> \<not> list_ex P xs"
  by (induction xs) auto

lemma FindActiveZoneVersion_find:
  "FindActiveZoneVersion env c authZone w =
       (case find Active vs of
          None \<Rightarrow> (Inl (Panic (IndexOutOfRange (- 1) (length vs))), w')
        | Some v \<Rightarrow> (Inr v, w'))"
  if "ListAllVersions env c authZone w = (Inr vs, w')"
proof (cases "find Active vs")
  case None
  with IndexFunc_find [where f = Active and xs = vs] have "IndexFunc vs Active = - 1"
    by simp
  with None that show ?thesis
    by (simp add: FindActiveZoneVersion_def index_def)
next
  case (Some v)
  with IndexFunc_find [where f = Active and xs = vs]
  have "index vs (IndexFunc vs Active) = Inr v"
    by simp
  with Some that show ?thesis
    by (simp add: FindActiveZoneVersion_def)
qed

section \<open>What a creation request carries\<close>

text \<open>
  C5. Whatever \<open>versionName\<close> is, the one request \<open>CreateZoneVersion\<close> hands to the
  transport is a POST whose payload is the name \<open>lego_tmp\<close>; the argument does not occur
  in it. No request is sent when the zone name is empty (the slice panics), when the
  request cannot be built, or when the client has no HTTP client.
\<close>

theorem CreateZoneVersion_payload_name:
  "sent w (snd (CreateZoneVersion env c authZone versionName w)) =
     (if authZone = [] \<or> \<not> Encode env (NamePayload ''lego_tmp'')
         \<or> \<not> NewRequestWithContext env ''POST''
               (JoinPath (baseURL c) [''domain'', butlast authZone, ''version''])
         \<or> Client.HTTPClient c = None
      then []
      else [\<lparr>Method = ''POST'',
             Endpoint = JoinPath (baseURL c) [''domain'', butlast authZone, ''version''],
             Body = Some (NamePayload ''lego_tmp''),
             Header = [(''Accept'', ''application/json''),
                       (''Authorization'', ''Bearer '' @ apiToken c),
                       (''Content-Type'', ''application/json'')]\<rparr>])"
  by (simp add: CreateZoneVersion_def slice_authZone newJSONRequest_def sent_do sent_same Let_def)

theorem CreateZoneVersion_payload_name_witness:
  "sent example_world
     (snd (CreateZoneVersion registrarEnv example_client ''example.com.'' ''my_version''
        example_world)) =
   [\<lparr>Method = ''POST'',
     Endpoint = JoinPath (Parse DefaultBaseURL) [''domain'', ''example.com'', ''version''],
     Body = Some (NamePayload ''lego_tmp''),
     Header = [(''Accept'', ''application/json''), (''Authorization'', ''Bearer token''),
               (''Content-Type'', ''application/json'')]\<rparr>]"
  using CreateZoneVersion_payload_name
    [of example_world registrarEnv example_client "''example.com.''" "''my_version''"]
  by (simp add: registrarEnv_def example_client_def)

text \<open>
  C6. The one request \<open>CreateRecord\<close> hands to the transport carries the input record
  with its priority replaced by 12: name, type, TTL and value are those of the input,
  whatever its priority was.
\<close>

theorem CreateRecord_payload:
  "sent w (snd (CreateRecord env c authZone versionID record w)) =
     (if authZone = [] \<or> \<not> Encode env (RecordPayload (record\<lparr>Priority := 12\<rparr>))
         \<or> \<not> NewRequestWithContext env ''POST''
               (JoinPath (baseURL c) [''domain'', butlast authZone, ''version'', versionID, ''zone''])
         \<or> Client.HTTPClient c = None
      then []
      else [\<lparr>Method = ''POST'',
             Endpoint = JoinPath (baseURL c)
                          [''domain'', butlast authZone, ''version'', versionID, ''zone''],
             Body = Some (RecordPayload (record\<lparr>Priority := 12\<rparr>)),
             Header = [(''Accept'', ''application/json''),
                       (''Authorization'', ''Bearer '' @ apiToken c),
                       (''Content-Type'', ''application/json'')]\<rparr>])"
proof -
  have "\<lparr>Type = Type record, Name = Record.Name record, Value = Value record,
          TTL = Record.TTL record, Priority = DefaultRecordPriority\<rparr> = record\<lparr>Priority := 12\<rparr>"
    by (simp add: DefaultRecordPriority_def)
  then show ?thesis
    by (simp add: CreateRecord_def slice_authZone newJSONRequest_def sent_do sent_same Let_def)
qed

theorem CreateRecord_payload_witness:
  "map Request.Body (sent example_world
     (snd (CreateRecord registrarEnv example_client ''example.com.'' ''v-empty''
        \<lparr>Type = ''MX'', Name = ''@'', Value = ''mail.example.com.'', TTL = 300, Priority = 10\<rparr>
        example_world))) =
   [Some (RecordPayload
      \<lparr>Type = ''MX'', Name = ''@'', Value = ''mail.example.com.'', TTL = 300, Priority = 12\<rparr>)]"
  using CreateRecord_payload
    [of example_world registrarEnv example_client "''example.com.''" "''v-empty''"
     "\<lparr>Type = ''MX'', Name = ''@'', Value = ''mail.example.com.'', TTL = 300, Priority = 10\<rparr>"]
  by (simp add: registrarEnv_def example_client_def)

section \<open>Looking a record up\<close>

text \<open>
  C7. When the listing of the version returns \<open>allRecords\<close>, \<open>GetRecord\<close> returns, without
  error, the first record of that list whose name and type are both the requested ones,
  and the zero record when the list has none. When the listing fails, so does
  \<open>GetRecord\<close>, with the same failure. On the list of an A record \<open>test01\<close>, a TXT record
  \<open>test04\<close> and an A record \<open>test04\<close>, the query for \<open>test04\<close> and \<open>A\<close> returns the third.
\<close>

theorem GetRecord_first_match:
  "(GetAllRecords env c authZone versionUUID w = (Inr allRecords, w') \<longrightarrow>
      GetRecord env c authZone versionUUID recordName recordType w =
        (Inr (case find (\<lambda>r. Record.Name r = recordName \<and> Type r = recordType) allRecords of
                None \<Rightarrow> Record_zero
              | Some r \<Rightarrow> r), w'))
   \<and> (GetAllRecords env c authZone versionUUID w = (Inl e, w') \<longrightarrow>
      GetRecord env c authZone versionUUID recordName recordType w = (Inl e, w'))"
  using GetRecord_find GetRecord_error by blast

theorem GetRecord_first_match_witness:
  "fst (GetRecord registrarEnv example_client ''example.com.'' ''v-three'' ''test04'' ''A''
          example_world) =
     Inr \<lparr>Type = ''A'', Name = ''test04'', Value = ''127.0.0.1'', TTL = 86400, Priority = 0\<rparr>
   \<and> fst (GetRecord registrarEnv example_client ''example.com.'' ''v-three'' ''test05'' ''A''
          example_world) = Inr Record_zero"
proof -
  let ?all = "GetAllRecords registrarEnv example_client ''example.com.'' ''v-three'' example_world"
  let ?recs = "[mk_record ''A'' ''test01'' ''10.0.0.1'' 300, mk_record ''TXT'' ''test04'' ''text'' 300,
                mk_record ''A'' ''test04'' ''127.0.0.1'' 86400]"
  have "fst ?all = Inr ?recs"
    by code_simp
  then have listed: "?all = (Inr ?recs, snd ?all)"
    by (metis prod.collapse)
  have third: "(case find (\<lambda>r. Record.Name r = ''test04'' \<and> Type r = ''A'') ?recs of
                  None \<Rightarrow> Record_zero | Some r \<Rightarrow> r) =
               \<lparr>Type = ''A'', Name = ''test04'', Value = ''127.0.0.1'', TTL = 86400, Priority = 0\<rparr>"
    by (simp add: mk_record_def)
  have none: "(case find (\<lambda>r. Record.Name r = ''test05'' \<and> Type r = ''A'') ?recs of
                  None \<Rightarrow> Record_zero | Some r \<Rightarrow> r) = Record_zero"
    by (simp add: mk_record_def)
  from GetRecord_first_match [THEN conjunct1, rule_format, OF listed, of "''test04''" "''A''"]
       GetRecord_first_match [THEN conjunct1, rule_format, OF listed, of "''test05''" "''A''"]
  show ?thesis
    unfolding third none by simp
qed

text \<open>
  C9. When the listing of the version returns \<open>allRecords\<close>, \<open>ReadVersionUUID\<close> returns,
  without error, what follows the 15 characters \<open>active_version:\<close> in the value of the
  first record named \<open>lego\<close> of type \<open>TXT\<close>, and the empty string when there is no such
  record or its value does not start with these characters. It fails exactly when the
  listing fails, with the failure of the listing.
\<close>

theorem ReadVersionUUID_result:
  "(GetAllRecords env c authZone versionUUID w = (Inr allRecords, w') \<longrightarrow>
      ReadVersionUUID env c authZone versionUUID w =
        (Inr (case find (\<lambda>r. Record.Name r = ''lego'' \<and> Type r = ''TXT'') allRecords of
                None \<Rightarrow> []
              | Some r \<Rightarrow>
                  if prefix ''active_version:'' (Value r) then drop 15 (Value r) else []), w'))
   \<and> (GetAllRecords env c authZone versionUUID w = (Inl e, w') \<longrightarrow>
      ReadVersionUUID env c authZone versionUUID w = (Inl e, w'))"
proof -
  have cut: "prefix ''active_version:'' v \<Longrightarrow>
             slice v 15 (int (length v)) = Inr (drop 15 v)" for v :: string
    using slice_from [of 15 v] by (auto simp: prefix_def)
  have zero: "\<not> prefix ''active_version:'' (Value Record_zero)"
    by (simp add: Record_zero_def)
  show ?thesis
    using GetRecord_find [of env c authZone versionUUID w allRecords w' "''lego''" "''TXT''"]
      GetRecord_error [of env c authZone versionUUID w e w' "''lego''" "''TXT''"]
    by (auto simp: ReadVersionUUID_def HasPrefix_prefix cut zero split: option.splits)
qed

theorem ReadVersionUUID_result_witness:
  "fst (ReadVersionUUID registrarEnv example_client ''example.com.'' ''v-live'' example_world) =
     Inr ''thisone''
   \<and> fst (ReadVersionUUID registrarEnv example_client ''example.com.'' ''v-old'' example_world) =
     Inr []
   \<and> fst (ReadVersionUUID registrarEnv example_client ''example.com.'' ''v-four'' example_world) =
     Inr []
   \<and> fst (ReadVersionUUID registrarEnv example_client ''example.com.'' ''v-none'' example_world) =
     Inl (Err (UnexpectedResponseStatusCodeError
       \<lparr>Method = ''GET'',
        Endpoint = JoinPath (Parse DefaultBaseURL)
                     [''domain'', ''example.com'', ''version'', ''v-none'', ''zone''],
        Body = None,
        Header = [(''Accept'', ''application/json''), (''Authorization'', ''Bearer token'')]\<rparr>
       404))"
proof -
  let ?get = "\<lambda>u. GetAllRecords registrarEnv example_client ''example.com.'' u example_world"
  let ?live = "[mk_record ''A'' ''test01'' ''10.0.0.1'' 300,
                mk_record ''TXT'' ''test04'' ''text'' 300,
                mk_record ''A'' ''test04'' ''127.0.0.1'' 86400,
                mk_record ''TXT'' ''lego'' ''active_version:thisone'' 300,
                (mk_record ''MX'' ''@'' ''mail.example.com.'' 300)\<lparr>Priority := 10\<rparr>]"
  let ?old = "[mk_record ''A'' ''www'' ''10.0.0.2'' 300,
               mk_record ''AFSDB'' ''@'' ''1 afs.example.com.'' 300,
               mk_record ''TXT'' ''lego'' ''version:none'' 300]"
  let ?four = "[mk_record ''A'' ''www'' ''10.0.0.4'' 300,
                mk_record ''NS'' ''@'' ''ns.example.com.'' 300,
                mk_record ''TXT'' ''@'' ''hello'' 300,
                mk_record ''SOA'' ''@'' ''ns.example.com. root.example.com.'' 300]"
  let ?e = "Err (UnexpectedResponseStatusCodeError
       \<lparr>Method = ''GET'',
        Endpoint = JoinPath (Parse DefaultBaseURL)
                     [''domain'', ''example.com'', ''version'', ''v-none'', ''zone''],
        Body = None,
        Header = [(''Accept'', ''application/json''), (''Authorization'', ''Bearer token'')]\<rparr>
       404)"
  have live: "?get ''v-live'' = (Inr ?live, snd (?get ''v-live''))"
    by code_simp
  have old: "?get ''v-old'' = (Inr ?old, snd (?get ''v-old''))"
    by code_simp
  have four: "?get ''v-four'' = (Inr ?four, snd (?get ''v-four''))"
    by code_simp
  have none: "?get ''v-none'' = (Inl ?e, snd (?get ''v-none''))"
    by code_simp
  from ReadVersionUUID_result [THEN conjunct1, rule_format, OF live]
       ReadVersionUUID_result [THEN conjunct1, rule_format, OF old]
       ReadVersionUUID_result [THEN conjunct1, rule_format, OF four]
       ReadVersionUUID_result [THEN conjunct2, rule_format, OF none]
  show ?thesis
    by (simp add: mk_record_def)
qed

section \<open>The active version of a zone\<close>

text \<open>
  C1. When the listing returns versions of which none is active, \<open>FindActiveZoneVersion\<close>
  indexes the list at -1 and panics; it returns no error value. When exactly one
  version is active, it returns that version. The sibling \<open>FindZoneVersion\<close> tests the
  index before it reads the list; this function does not.
\<close>

theorem FindActiveZoneVersion_outcome:
  "ListAllVersions env c authZone w = (Inr vs, w') \<longrightarrow>
     (\<not> list_ex Active vs \<longrightarrow>
        FindActiveZoneVersion env c authZone w =
          (Inl (Panic (IndexOutOfRange (- 1) (length vs))), w'))
     \<and> (filter Active vs = [v] \<longrightarrow>
        FindActiveZoneVersion env c authZone w = (Inr v, w'))"
  using FindActiveZoneVersion_find [of env c authZone w vs w']
    find_filter_single [of Active vs v] find_None_list_ex [of Active vs]
  by auto

theorem FindActiveZoneVersion_outcome_witness:
  "fst (FindActiveZoneVersion registrarEnv example_client ''example.com.''
          \<lparr>requests = [], server = inactive_registrar\<rparr>) =
     Inl (Panic (IndexOutOfRange (- 1) 5))
   \<and> fst (FindActiveZoneVersion registrarEnv example_client ''example.com.'' example_world) =
     Inr (mk_version ''v-live'' ''activeVersion001'' True)"
proof -
  let ?w = "\<lparr>requests = [], server = inactive_registrar\<rparr>"
  let ?none = "ListAllVersions registrarEnv example_client ''example.com.'' ?w"
  let ?one = "ListAllVersions registrarEnv example_client ''example.com.'' example_world"
  have none: "?none = (Inr (versions inactive_registrar), snd ?none)"
    by code_simp
  have one: "?one = (Inr (versions example_registrar), snd ?one)"
    by code_simp
  have inactive: "\<not> list_ex Active (versions inactive_registrar)"
    by code_simp
  have active: "filter Active (versions example_registrar) = [mk_version ''v-live'' ''activeVersion001'' True]"
    by code_simp
  have len: "length (versions inactive_registrar) = 5"
    by code_simp
  from FindActiveZoneVersion_outcome [THEN mp, OF none, THEN conjunct1, THEN mp, OF inactive]
       FindActiveZoneVersion_outcome [THEN mp, OF one, THEN conjunct2, THEN mp, OF active]
  show ?thesis
    by (simp add: len)
qed

section \<open>The base URL of the provider's client\<close>

text \<open>
  C4. The client \<open>NewDNSProviderConfig\<close> builds has the default base URL whatever the
  field \<open>BaseURL\<close> of the configuration holds: the field is never read. A configuration
  that names another base URL gets a client whose requests go to the default one.
\<close>

theorem NewDNSProviderConfig_baseURL:
  "NewDNSProviderConfig (Some conf) =
     (if APIToken conf = [] then Inl CredentialsMissing
      else Inr \<lparr>config = conf,
                client = \<lparr>apiToken = APIToken conf, baseURL = Parse ''https://api.online.net/api/v1'',
                          HTTPClient = Config.HTTPClient conf\<rparr>,
                activeVersionUUID = [], tempVersionUUID = []\<rparr>)"
  by (simp add: NewDNSProviderConfig_def NewClient_def DefaultBaseURL_def)

theorem NewDNSProviderConfig_baseURL_witness:
  "BaseURL (example_config ''lego_tmp'') = ''https://registrar.example.test/api''
   \<and> (case NewDNSProviderConfig (Some (example_config ''lego_tmp'')) of
        Inl e \<Rightarrow> False
      | Inr d \<Rightarrow>
          baseURL (client d) = Parse ''https://api.online.net/api/v1''
          \<and> map Endpoint (sent example_world
                (snd (ListAllVersions registrarEnv (client d) ''example.com.'' example_world))) =
              [JoinPath (Parse ''https://api.online.net/api/v1'')
                 [''domain'', ''example.com'', ''version'']])"
proof -
  have token: "APIToken (example_config ''lego_tmp'') \<noteq> []"
    by (simp add: example_config_def)
  have url: "BaseURL (example_config ''lego_tmp'') = ''https://registrar.example.test/api''"
    by (simp add: example_config_def)
  have "map Endpoint (sent example_world
          (snd (ListAllVersions registrarEnv
                  \<lparr>apiToken = APIToken (example_config ''lego_tmp''),
                   baseURL = Parse ''https://api.online.net/api/v1'',
                   HTTPClient = Config.HTTPClient (example_config ''lego_tmp'')\<rparr>
                  ''example.com.'' example_world))) =
        [JoinPath (Parse ''https://api.online.net/api/v1'') [''domain'', ''example.com'', ''version'']]"
    by code_simp
  with NewDNSProviderConfig_baseURL [of "example_config ''lego_tmp''"] token url
  show ?thesis
    by simp
qed

section \<open>The domain path segment\<close>

lemma sent_trans:
  "prefix (requests w) (requests w') \<Longrightarrow> prefix (requests w') (requests w'') \<Longrightarrow>
     sent w w'' = sent w w' @ sent w' w''"
  by (auto simp: prefix_def sent_def)

lemma prefix_do: "prefix (requests w) (requests (snd (do env c req unmarshal result w)))"
  by (simp add: requests_do)

lemma segment_request:
  "newJSONRequest env c m (JoinPath u (''domain'' # d # rest)) payload = Inr req \<Longrightarrow>
     domain_segment req = Some d"
  by (auto simp: newJSONRequest_def domain_segment_def split: if_splits)

text \<open>The seven operations that build an endpoint.\<close>

lemma ListAllVersions_sends:
  "prefix (requests w) (requests (snd (ListAllVersions env c authZone w)))"
  "list_all (\<lambda>r. domain_segment r = Some (butlast authZone))
     (sent w (snd (ListAllVersions env c authZone w)))"
  by (auto simp: ListAllVersions_def slice_authZone sent_do sent_same requests_do
      dest: segment_request split: sum.splits)

lemma GetZoneVersion_sends:
  "prefix (requests w) (requests (snd (GetZoneVersion env c authZone u w)))"
  "list_all (\<lambda>r. domain_segment r = Some (butlast authZone))
     (sent w (snd (GetZoneVersion env c authZone u w)))"
  by (auto simp: GetZoneVersion_def slice_authZone sent_do sent_same requests_do
      dest: segment_request split: sum.splits)

lemma CreateZoneVersion_sends:
  "prefix (requests w) (requests (snd (CreateZoneVersion env c authZone n w)))"
  "list_all (\<lambda>r. domain_segment r = Some (butlast authZone))
     (sent w (snd (CreateZoneVersion env c authZone n w)))"
  by (auto simp: CreateZoneVersion_def slice_authZone sent_do sent_same requests_do Let_def
      dest: segment_request split: sum.splits)

lemma DeleteZoneVersion_sends:
  "prefix (requests w) (requests (snd (DeleteZoneVersion env c authZone u w)))"
  "list_all (\<lambda>r. domain_segment r = Some (butlast authZone))
     (sent w (snd (DeleteZoneVersion env c authZone u w)))"
  by (auto simp: DeleteZoneVersion_def slice_authZone sent_do sent_same requests_do
      dest: segment_request split: sum.splits)

lemma GetAllRecords_sends:
  "prefix (requests w) (requests (snd (GetAllRecords env c authZone u w)))"
  "list_all (\<lambda>r. domain_segment r = Some (butlast authZone))
     (sent w (snd (GetAllRecords env c authZone u w)))"
  by (auto simp: GetAllRecords_def slice_authZone sent_do sent_same requests_do
      dest: segment_request split: sum.splits)

lemma EnableZone_sends:
  "prefix (requests w) (requests (snd (EnableZone env c authZone u w)))"
  "list_all (\<lambda>r. domain_segment r = Some (butlast authZone))
     (sent w (snd (EnableZone env c authZone u w)))"
  by (auto simp: EnableZone_def slice_authZone sent_do sent_same requests_do
      dest: segment_request split: sum.splits)

lemma CreateRecord_sends:
  "prefix (requests w) (requests (snd (CreateRecord env c authZone u rcd w)))"
  "list_all (\<lambda>r. domain_segment r = Some (butlast authZone))
     (sent w (snd (CreateRecord env c authZone u rcd w)))"
  by (auto simp: CreateRecord_def slice_authZone sent_do sent_same requests_do Let_def
      dest: segment_request split: sum.splits)

text \<open>The five operations that go through them.\<close>

lemma snd_FindActiveZoneVersion:
  "snd (FindActiveZoneVersion env c authZone w) = snd (ListAllVersions env c authZone w)"
  by (simp add: FindActiveZoneVersion_def Let_def split: prod.splits sum.splits)

lemma snd_FindZoneVersion:
  "snd (FindZoneVersion env c authZone n w) = snd (ListAllVersions env c authZone w)"
  by (simp add: FindZoneVersion_def Let_def split: prod.splits sum.splits)

lemma snd_GetRecord:
  "snd (GetRecord env c authZone u n t w) = snd (GetAllRecords env c authZone u w)"
  by (simp add: GetRecord_def Let_def split: prod.splits sum.splits)

lemma snd_ReadVersionUUID:
  "snd (ReadVersionUUID env c authZone u w) = snd (GetAllRecords env c authZone u w)"
proof (cases "GetRecord env c authZone u ''lego'' ''TXT'' w")
  case (Pair res w1)
  with snd_GetRecord [of env c authZone u "''lego''" "''TXT''" w]
  show ?thesis
    by (simp add: ReadVersionUUID_def split: sum.splits)
qed

lemma duplicate_loop_sends:
  "prefix (requests w) (requests (snd (duplicate_loop env c authZone t re rs w)))
   \<and> list_all (\<lambda>r. domain_segment r = Some (butlast authZone))
       (sent w (snd (duplicate_loop env c authZone t re rs w)))"
proof (induction rs arbitrary: w)
  case Nil
  show ?case by (simp add: sent_same)
next
  case (Cons r rs)
  let ?rec = "\<lparr>Type = Type r, Name = Record.Name r, Value = Value r, TTL = Record.TTL r,
               Priority = 0\<rparr>"
  show ?case
  proof (cases "MatchString re (Type r)")
    case False
    with Cons show ?thesis by simp
  next
    case True
    obtain res w1 where step: "CreateRecord env c authZone t ?rec w = (res, w1)"
      by (cases "CreateRecord env c authZone t ?rec w")
    from CreateRecord_sends [where w = w and env = env and c = c and authZone = authZone
        and u = t and rcd = ?rec] step
    have one: "prefix (requests w) (requests w1)"
      "list_all (\<lambda>r. domain_segment r = Some (butlast authZone)) (sent w w1)"
      by simp_all
    show ?thesis
    proof (cases res)
      case (Inl e)
      with True step one show ?thesis by simp
    next
      case (Inr created)
      let ?w2 = "snd (duplicate_loop env c authZone t re rs w1)"
      from Cons [of w1] have rest: "prefix (requests w1) (requests ?w2)"
        "list_all (\<lambda>r. domain_segment r = Some (butlast authZone)) (sent w1 ?w2)"
        by simp_all
      from one rest have "prefix (requests w) (requests ?w2)"
        by (meson prefix_order.trans)
      moreover from one rest
      have "list_all (\<lambda>r. domain_segment r = Some (butlast authZone)) (sent w ?w2)"
        by (simp add: sent_trans [of w w1 ?w2])
      ultimately show ?thesis
        using True step Inr by simp
    qed
  qed
qed

lemma DuplicateZoneVersionRecords_sends:
  "list_all (\<lambda>r. domain_segment r = Some (butlast authZone))
     (sent w (snd (DuplicateZoneVersionRecords env c authZone src tgt w)))"
proof -
  obtain res w1 where listed: "GetAllRecords env c authZone src w = (res, w1)"
    by (cases "GetAllRecords env c authZone src w")
  from GetAllRecords_sends [where w = w and env = env and c = c and authZone = authZone
      and u = src] listed
  have one: "prefix (requests w) (requests w1)"
    "list_all (\<lambda>r. domain_segment r = Some (butlast authZone)) (sent w w1)"
    by simp_all
  show ?thesis
  proof (cases res)
    case (Inl e)
    with listed one show ?thesis by (simp add: DuplicateZoneVersionRecords_def)
  next
    case (Inr records)
    show ?thesis
    proof (cases "MustCompile ''^(A)|(AAAA)|(CNAME)|(MX)|(SRV)|(TXT)$''")
      case (Inl p)
      with listed Inr one show ?thesis by (simp add: DuplicateZoneVersionRecords_def)
    next
      case re: (Inr re)
      from duplicate_loop_sends [where w = w1 and env = env and c = c and authZone = authZone
          and t = tgt and re = re and rs = records] one
      have "list_all (\<lambda>r. domain_segment r = Some (butlast authZone))
              (sent w (snd (duplicate_loop env c authZone tgt re records w1)))"
        by (simp add: sent_trans [of w w1 "snd (duplicate_loop env c authZone tgt re records w1)"])
      with listed Inr re show ?thesis by (simp add: DuplicateZoneVersionRecords_def)
    qed
  qed
qed

lemma empty_zone_panics:
  "ListAllVersions env c [] w = (Inl (Panic (SliceBoundsOutOfRange 0 (- 1) 0)), w)"
  "GetZoneVersion env c [] u w = (Inl (Panic (SliceBoundsOutOfRange 0 (- 1) 0)), w)"
  "CreateZoneVersion env c [] n w = (Inl (Panic (SliceBoundsOutOfRange 0 (- 1) 0)), w)"
  "DeleteZoneVersion env c [] u w = (Inl (Panic (SliceBoundsOutOfRange 0 (- 1) 0)), w)"
  "GetAllRecords env c [] u w = (Inl (Panic (SliceBoundsOutOfRange 0 (- 1) 0)), w)"
  "EnableZone env c [] u w = (Inl (Panic (SliceBoundsOutOfRange 0 (- 1) 0)), w)"
  "CreateRecord env c [] u record w = (Inl (Panic (SliceBoundsOutOfRange 0 (- 1) 0)), w)"
  by (simp_all add: ListAllVersions_def GetZoneVersion_def CreateZoneVersion_def
      DeleteZoneVersion_def GetAllRecords_def EnableZone_def CreateRecord_def slice_def)

lemma empty_zone_panics_through:
  "FindActiveZoneVersion env c [] w = (Inl (Panic (SliceBoundsOutOfRange 0 (- 1) 0)), w)"
  "FindZoneVersion env c [] n w = (Inl (Panic (SliceBoundsOutOfRange 0 (- 1) 0)), w)"
  "GetRecord env c [] u n t w = (Inl (Panic (SliceBoundsOutOfRange 0 (- 1) 0)), w)"
  "ReadVersionUUID env c [] u w = (Inl (Panic (SliceBoundsOutOfRange 0 (- 1) 0)), w)"
  "DuplicateZoneVersionRecords env c [] src tgt w =
     (Inl (Panic (SliceBoundsOutOfRange 0 (- 1) 0)), w)"
  by (simp_all add: FindActiveZoneVersion_def FindZoneVersion_def GetRecord_def
      ReadVersionUUID_def DuplicateZoneVersionRecords_def empty_zone_panics)

section \<open>The steps of Present\<close>

text \<open>
  \<open>Present\<close> runs its steps in order: the zone of the challenge name, the lookup of a
  version named by the configured label, the guard on what the lookup found, the lookup
  of the active version, the creation of the temporary version, the duplication of the
  records, the creation of the challenge record, and the enabling. When all steps before
  one have succeeded and that one fails, \<open>Present\<close> stops there, and the world it leaves is
  the world that step left, so no request of a later step is sent. A step that returns an
  error gives the error of that step, wrapping the one returned; a step whose call
  panics gives that panic and no error.
\<close>

theorem Present_stops_at_failing_step:
  fixes env :: "('raw, 'b) Env" and d :: DNSProvider and domainName keyAuth :: string
  defines "info \<equiv> GetChallengeInfo env domainName keyAuth"
    and "label \<equiv> TempZoneVersionName (config d)"
  shows
  "(FindZoneByFqdn env (EffectiveFQDN info) = Inl err \<longrightarrow>
      Present env d domainName token keyAuth w =
        (Inl (Err (CouldNotFindZone domainName err)), d, w))
   \<and> (FindZoneByFqdn env (EffectiveFQDN info) = Inr authZone \<longrightarrow>
     (FindZoneVersion env (client d) authZone label w = (Inl f, w1) \<longrightarrow>
        Present env d domainName token keyAuth w =
          (Inl (wrap (UnableToVerifyVersion label authZone) f), d, w1))
   \<and> (FindZoneVersion env (client d) authZone label w = (Inr version, w1)
        \<and> version \<noteq> Version_zero \<longrightarrow>
        Present env d domainName token keyAuth w =
          (Inl (Err (VersionAlreadyExists label authZone)), d, w1))
   \<and> (FindZoneVersion env (client d) authZone label w = (Inr Version_zero, w1) \<longrightarrow>
     (FindActiveZoneVersion env (client d) authZone w1 = (Inl f, w2) \<longrightarrow>
        Present env d domainName token keyAuth w =
          (Inl (wrap (UnableToFindActiveVersion authZone) f), d, w2))
   \<and> (FindActiveZoneVersion env (client d) authZone w1 = (Inr active, w2) \<longrightarrow>
     (CreateZoneVersion env (client d) authZone label w2 = (Inl f, w3) \<longrightarrow>
        Present env d domainName token keyAuth w =
          (Inl (wrap (UnableToCreateTemporaryVersion label authZone) f),
           d\<lparr>activeVersionUUID := UUIDRef active\<rparr>, w3))
   \<and> (CreateZoneVersion env (client d) authZone label w2 = (Inr temp, w3) \<longrightarrow>
     (DuplicateZoneVersionRecords env (client d) authZone (UUIDRef active) (UUIDRef temp) w3 =
        (Inl f, w4) \<longrightarrow>
        Present env d domainName token keyAuth w =
          (Inl (wrap (UnableToDuplicateRecords (Version.Name active) (Version.Name temp)) f),
           d\<lparr>activeVersionUUID := UUIDRef active, tempVersionUUID := UUIDRef temp\<rparr>, w4))
   \<and> (DuplicateZoneVersionRecords env (client d) authZone (UUIDRef active) (UUIDRef temp) w3 =
        (Inr (), w4) \<longrightarrow>
     (CreateRecord env (client d) authZone (UUIDRef temp)
        \<lparr>Type = ''TXT'', Name = Replace_once (EffectiveFQDN info) (''.'' @ authZone) [],
         Value = ChallengeValue info, TTL = Config.TTL (config d), Priority = 0\<rparr> w4 =
        (Inl f, w5) \<longrightarrow>
        Present env d domainName token keyAuth w =
          (Inl (wrap (UnableToCreateRecord
                        (Replace_once (EffectiveFQDN info) (''.'' @ authZone) [])
                        (Version.Name temp)) f),
           d\<lparr>activeVersionUUID := UUIDRef active, tempVersionUUID := UUIDRef temp\<rparr>, w5))
   \<and> (CreateRecord env (client d) authZone (UUIDRef temp)
        \<lparr>Type = ''TXT'', Name = Replace_once (EffectiveFQDN info) (''.'' @ authZone) [],
         Value = ChallengeValue info, TTL = Config.TTL (config d), Priority = 0\<rparr> w4 =
        (Inr created, w5) \<longrightarrow>
     (EnableZone env (client d) authZone (UUIDRef temp) w5 = (Inl f, w6) \<longrightarrow>
        Present env d domainName token keyAuth w =
          (Inl (wrap (UnableToEnableVersion (Version.Name temp)) f),
           d\<lparr>activeVersionUUID := UUIDRef active, tempVersionUUID := UUIDRef temp\<rparr>, w6))
   \<and> (EnableZone env (client d) authZone (UUIDRef temp) w5 = (Inr (), w6) \<longrightarrow>
        Present env d domainName token keyAuth w =
          (Inr (),
           d\<lparr>activeVersionUUID := UUIDRef active, tempVersionUUID := UUIDRef temp\<rparr>,
           w6))))))))"
  unfolding info_def label_def
  by (simp add: Present_def Let_def)

theorem Present_stops_at_failing_step_witness:
  "Present (registrarEnv\<lparr>FindZoneByFqdn := \<lambda>fqdn. Inl (ExternalError ''no zone'')\<rparr>)
       (example_provider ''lego_tmp'') ''example.com'' ''token'' ''keyAuth'' example_world =
     (Inl (Err (CouldNotFindZone ''example.com'' (ExternalError ''no zone''))), (example_provider ''lego_tmp''), example_world)
   \<and> fst (Present registrarEnv (example_provider ''four'') ''example.com'' ''token'' ''keyAuth'' example_world) =
       Inl (Err (VersionAlreadyExists ''four'' ''example.com.''))
   \<and> map Method (requests (snd (snd (Present registrarEnv (example_provider ''four'') ''example.com'' ''token'' ''keyAuth'' example_world)))) = [''GET'']
   \<and> fst (Present failingEnv (example_provider ''lego_tmp'') ''example.com'' ''token'' ''keyAuth'' \<lparr>requests = [], server = (0::nat, example_registrar)\<rparr>) =
       Inl (Err (UnableToVerifyVersion ''lego_tmp'' ''example.com.''
         (HTTPDoError (last (requests (snd (snd (Present failingEnv (example_provider ''lego_tmp'') ''example.com'' ''token'' ''keyAuth'' \<lparr>requests = [], server = (0::nat, example_registrar)\<rparr>))))))))
   \<and> map Method (requests (snd (snd (Present failingEnv (example_provider ''lego_tmp'') ''example.com'' ''token'' ''keyAuth'' \<lparr>requests = [], server = (0::nat, example_registrar)\<rparr>)))) =
       [''GET'']
   \<and> fst (Present failingEnv (example_provider ''lego_tmp'') ''example.com'' ''token'' ''keyAuth'' \<lparr>requests = [], server = (1::nat, example_registrar)\<rparr>) =
       Inl (Err (UnableToFindActiveVersion ''example.com.''
         (HTTPDoError (last (requests (snd (snd (Present failingEnv (example_provider ''lego_tmp'') ''example.com'' ''token'' ''keyAuth'' \<lparr>requests = [], server = (1::nat, example_registrar)\<rparr>))))))))
   \<and> map Method (requests (snd (snd (Present failingEnv (example_provider ''lego_tmp'') ''example.com'' ''token'' ''keyAuth'' \<lparr>requests = [], server = (1::nat, example_registrar)\<rparr>)))) =
       [''GET'', ''GET'']
   \<and> fst (Present failingEnv (example_provider ''lego_tmp'') ''example.com'' ''token'' ''keyAuth'' \<lparr>requests = [], server = (2::nat, example_registrar)\<rparr>) =
       Inl (Err (UnableToCreateTemporaryVersion ''lego_tmp'' ''example.com.''
         (HTTPDoError (last (requests (snd (snd (Present failingEnv (example_provider ''lego_tmp'') ''example.com'' ''token'' ''keyAuth'' \<lparr>requests = [], server = (2::nat, example_registrar)\<rparr>))))))))
   \<and> map Method (requests (snd (snd (Present failingEnv (example_provider ''lego_tmp'') ''example.com'' ''token'' ''keyAuth'' \<lparr>requests = [], server = (2::nat, example_registrar)\<rparr>)))) =
       [''GET'', ''GET'', ''POST'']
   \<and> fst (Present failingEnv (example_provider ''lego_tmp'') ''example.com'' ''token'' ''keyAuth'' \<lparr>requests = [], server = (3::nat, example_registrar)\<rparr>) =
       Inl (Err (UnableToDuplicateRecords ''activeVersion001'' ''lego_tmp''
         (HTTPDoError (last (requests (snd (snd (Present failingEnv (example_provider ''lego_tmp'') ''example.com'' ''token'' ''keyAuth'' \<lparr>requests = [], server = (3::nat, example_registrar)\<rparr>))))))))
   \<and> map Method (requests (snd (snd (Present failingEnv (example_provider ''lego_tmp'') ''example.com'' ''token'' ''keyAuth'' \<lparr>requests = [], server = (3::nat, example_registrar)\<rparr>)))) =
       [''GET'', ''GET'', ''POST'', ''GET'']
   \<and> fst (Present failingEnv (example_provider ''lego_tmp'') ''example.com'' ''token'' ''keyAuth'' \<lparr>requests = [], server = (9::nat, example_registrar)\<rparr>) =
       Inl (Err (UnableToCreateRecord ''_acme-challenge'' ''lego_tmp''
         (HTTPDoError (last (requests (snd (snd (Present failingEnv (example_provider ''lego_tmp'') ''example.com'' ''token'' ''keyAuth'' \<lparr>requests = [], server = (9::nat, example_registrar)\<rparr>))))))))
   \<and> map Method (requests (snd (snd (Present failingEnv (example_provider ''lego_tmp'') ''example.com'' ''token'' ''keyAuth'' \<lparr>requests = [], server = (9::nat, example_registrar)\<rparr>)))) =
       [''GET'', ''GET'', ''POST'', ''GET'', ''POST'', ''POST'', ''POST'', ''POST'', ''POST'', ''POST'']
   \<and> fst (Present failingEnv (example_provider ''lego_tmp'') ''example.com'' ''token'' ''keyAuth'' \<lparr>requests = [], server = (10::nat, example_registrar)\<rparr>) =
       Inl (Err (UnableToEnableVersion ''lego_tmp''
         (HTTPDoError (last (requests (snd (snd (Present failingEnv (example_provider ''lego_tmp'') ''example.com'' ''token'' ''keyAuth'' \<lparr>requests = [], server = (10::nat, example_registrar)\<rparr>))))))))
   \<and> map Method (requests (snd (snd (Present failingEnv (example_provider ''lego_tmp'') ''example.com'' ''token'' ''keyAuth'' \<lparr>requests = [], server = (10::nat, example_registrar)\<rparr>)))) =
       [''GET'', ''GET'', ''POST'', ''GET'', ''POST'', ''POST'', ''POST'', ''POST'', ''POST'', ''POST'', ''PATCH'']
   \<and> fst (Present failingEnv (example_provider ''lego_tmp'') ''example.com'' ''token'' ''keyAuth'' \<lparr>requests = [], server = (11::nat, example_registrar)\<rparr>) = Inr ()
   \<and> map Method (requests (snd (snd (Present failingEnv (example_provider ''lego_tmp'') ''example.com'' ''token'' ''keyAuth'' \<lparr>requests = [], server = (11::nat, example_registrar)\<rparr>)))) =
       [''GET'', ''GET'', ''POST'', ''GET'', ''POST'', ''POST'', ''POST'', ''POST'', ''POST'', ''POST'', ''PATCH'']"
proof -
  have nozone: "FindZoneByFqdn (registrarEnv\<lparr>FindZoneByFqdn := \<lambda>fqdn. Inl (ExternalError ''no zone'')\<rparr>)
      (EffectiveFQDN (GetChallengeInfo (registrarEnv\<lparr>FindZoneByFqdn := \<lambda>fqdn. Inl (ExternalError ''no zone'')\<rparr>) ''example.com'' ''keyAuth'')) = Inl (ExternalError ''no zone'')"
    by code_simp
  from Present_stops_at_failing_step
         [where env = "registrarEnv\<lparr>FindZoneByFqdn := \<lambda>fqdn. Inl (ExternalError ''no zone'')\<rparr>" and d = "example_provider ''lego_tmp''" and domainName = "''example.com''"
            and token = "''token''" and keyAuth = "''keyAuth''" and w = example_world,
          THEN conjunct1, THEN mp, OF nozone]
  have zone_fails: "Present (registrarEnv\<lparr>FindZoneByFqdn := \<lambda>fqdn. Inl (ExternalError ''no zone'')\<rparr>)
       (example_provider ''lego_tmp'') ''example.com'' ''token'' ''keyAuth'' example_world =
     (Inl (Err (CouldNotFindZone ''example.com'' (ExternalError ''no zone''))), (example_provider ''lego_tmp''), example_world)" .
  have rzone: "FindZoneByFqdn registrarEnv
      (EffectiveFQDN (GetChallengeInfo registrarEnv ''example.com'' ''keyAuth'')) = Inr ''example.com.''"
    by code_simp
  let ?found = "FindZoneVersion registrarEnv (client (example_provider ''four'')) ''example.com.''
      (TempZoneVersionName (config (example_provider ''four''))) example_world"
  have found: "?found = (Inr (mk_version ''v-four'' ''four'' False), snd ?found)
      \<and> mk_version ''v-four'' ''four'' False \<noteq> Version_zero"
    by code_simp
  from Present_stops_at_failing_step
         [where env = registrarEnv and d = "example_provider ''four''" and domainName = "''example.com''"
            and token = "''token''" and keyAuth = "''keyAuth''" and w = example_world,
          THEN conjunct2, THEN mp, OF rzone, THEN conjunct2, THEN conjunct1, THEN mp, OF found]
  have conflict_eq: "Present registrarEnv (example_provider ''four'') ''example.com'' ''token'' ''keyAuth'' example_world =
      (Inl (Err (VersionAlreadyExists (TempZoneVersionName (config (example_provider ''four''))) ''example.com.'')), (example_provider ''four''), snd ?found)" .
  have conflict: "fst (Present registrarEnv (example_provider ''four'') ''example.com'' ''token'' ''keyAuth'' example_world) =
       Inl (Err (VersionAlreadyExists ''four'' ''example.com.''))
   \<and> map Method (requests (snd (snd (Present registrarEnv (example_provider ''four'') ''example.com'' ''token'' ''keyAuth'' example_world)))) = [''GET'']"
    unfolding conflict_eq by code_simp
  have zone: "FindZoneByFqdn failingEnv (EffectiveFQDN (GetChallengeInfo failingEnv ''example.com'' ''keyAuth'')) = Inr ''example.com.''"
    by code_simp
  have guard: "fst (Present failingEnv (example_provider ''lego_tmp'') ''example.com'' ''token'' ''keyAuth'' \<lparr>requests = [], server = (0::nat, example_registrar)\<rparr>) =
       Inl (Err (UnableToVerifyVersion ''lego_tmp'' ''example.com.''
         (HTTPDoError (last (requests (snd (snd (Present failingEnv (example_provider ''lego_tmp'') ''example.com'' ''token'' ''keyAuth'' \<lparr>requests = [], server = (0::nat, example_registrar)\<rparr>))))))))
   \<and> map Method (requests (snd (snd (Present failingEnv (example_provider ''lego_tmp'') ''example.com'' ''token'' ''keyAuth'' \<lparr>requests = [], server = (0::nat, example_registrar)\<rparr>)))) =
       [''GET'']"
  proof -
    let ?w0 = "\<lparr>requests = [], server = (0::nat, example_registrar)\<rparr>"
    let ?s0 = "FindZoneVersion failingEnv (client (example_provider ''lego_tmp'')) ''example.com.'' (TempZoneVersionName (config (example_provider ''lego_tmp''))) ?w0"
    let ?w1 = "snd ?s0"
    have s0: "?s0 = (Inl (Err (HTTPDoError (last (requests ?w1)))), ?w1)"
      by code_simp
    from Present_stops_at_failing_step
           [where env = failingEnv and d = "example_provider ''lego_tmp''" and domainName = "''example.com''"
              and token = "''token''" and keyAuth = "''keyAuth''" and w = ?w0,
            THEN conjunct2, THEN mp, OF zone, THEN conjunct1, THEN mp, OF s0]
    have eq: "Present failingEnv (example_provider ''lego_tmp'') ''example.com'' ''token'' ''keyAuth'' ?w0 =
        (Inl (wrap (UnableToVerifyVersion (TempZoneVersionName (config (example_provider ''lego_tmp''))) ''example.com.'')
           (Err (HTTPDoError (last (requests ?w1))))), (example_provider ''lego_tmp''), ?w1)" .
    show ?thesis
      unfolding eq by code_simp
  qed
  have active: "fst (Present failingEnv (example_provider ''lego_tmp'') ''example.com'' ''token'' ''keyAuth'' \<lparr>requests = [], server = (1::nat, example_registrar)\<rparr>) =
       Inl (Err (UnableToFindActiveVersion ''example.com.''
         (HTTPDoError (last (requests (snd (snd (Present failingEnv (example_provider ''lego_tmp'') ''example.com'' ''token'' ''keyAuth'' \<lparr>requests = [], server = (1::nat, example_registrar)\<rparr>))))))))
   \<and> map Method (requests (snd (snd (Present failingEnv (example_provider ''lego_tmp'') ''example.com'' ''token'' ''keyAuth'' \<lparr>requests = [], server = (1::nat, example_registrar)\<rparr>)))) =
       [''GET'', ''GET'']"
  proof -
    let ?w0 = "\<lparr>requests = [], server = (1::nat, example_registrar)\<rparr>"
    let ?s0 = "FindZoneVersion failingEnv (client (example_provider ''lego_tmp'')) ''example.com.'' (TempZoneVersionName (config (example_provider ''lego_tmp''))) ?w0"
    let ?w1 = "snd ?s0"
    have s0: "?s0 = (Inr Version_zero, ?w1)"
      by code_simp
    let ?s1 = "FindActiveZoneVersion failingEnv (client (example_provider ''lego_tmp'')) ''example.com.'' ?w1"
    let ?w2 = "snd ?s1"
    have s1: "?s1 = (Inl (Err (HTTPDoError (last (requests ?w2)))), ?w2)"
      by code_simp
    from Present_stops_at_failing_step
           [where env = failingEnv and d = "example_provider ''lego_tmp''" and domainName = "''example.com''"
              and token = "''token''" and keyAuth = "''keyAuth''" and w = ?w0,
            THEN conjunct2, THEN mp, OF zone, THEN conjunct2, THEN conjunct2, THEN mp, OF s0, THEN conjunct1, THEN mp, OF s1]
    have eq: "Present failingEnv (example_provider ''lego_tmp'') ''example.com'' ''token'' ''keyAuth'' ?w0 =
        (Inl (wrap (UnableToFindActiveVersion ''example.com.'')
           (Err (HTTPDoError (last (requests ?w2))))), (example_provider ''lego_tmp''), ?w2)" .
    show ?thesis
      unfolding eq by code_simp
  qed
  have create: "fst (Present failingEnv (example_provider ''lego_tmp'') ''example.com'' ''token'' ''keyAuth'' \<lparr>requests = [], server = (2::nat, example_registrar)\<rparr>) =
       Inl (Err (UnableToCreateTemporaryVersion ''lego_tmp'' ''example.com.''
         (HTTPDoError (last (requests (snd (snd (Present failingEnv (example_provider ''lego_tmp'') ''example.com'' ''token'' ''keyAuth'' \<lparr>requests = [], server = (2::nat, example_registrar)\<rparr>))))))))
   \<and> map Method (requests (snd (snd (Present failingEnv (example_provider ''lego_tmp'') ''example.com'' ''token'' ''keyAuth'' \<lparr>requests = [], server = (2::nat, example_registrar)\<rparr>)))) =
       [''GET'', ''GET'', ''POST'']"
  proof -
    let ?w0 = "\<lparr>requests = [], server = (2::nat, example_registrar)\<rparr>"
    let ?s0 = "FindZoneVersion failingEnv (client (example_provider ''lego_tmp'')) ''example.com.'' (TempZoneVersionName (config (example_provider ''lego_tmp''))) ?w0"
    let ?w1 = "snd ?s0"
    have s0: "?s0 = (Inr Version_zero, ?w1)"
      by code_simp
    let ?s1 = "FindActiveZoneVersion failingEnv (client (example_provider ''lego_tmp'')) ''example.com.'' ?w1"
    let ?w2 = "snd ?s1"
    have s1: "?s1 = (Inr (mk_version ''v-live'' ''activeVersion001'' True), ?w2)"
      by code_simp
    let ?s2 = "CreateZoneVersion failingEnv (client (example_provider ''lego_tmp'')) ''example.com.'' (TempZoneVersionName (config (example_provider ''lego_tmp''))) ?w2"
    let ?w3 = "snd ?s2"
    have s2: "?s2 = (Inl (Err (HTTPDoError (last (requests ?w3)))), ?w3)"
      by code_simp
    from Present_stops_at_failing_step
           [where env = failingEnv and d = "example_provider ''lego_tmp''" and domainName = "''example.com''"
              and token = "''token''" and keyAuth = "''keyAuth''" and w = ?w0,
            THEN conjunct2, THEN mp, OF zone, THEN conjunct2, THEN conjunct2, THEN mp, OF s0, THEN conjunct2, THEN mp, OF s1, THEN conjunct1, THEN mp, OF s2]
    have eq: "Present failingEnv (example_provider ''lego_tmp'') ''example.com'' ''token'' ''keyAuth'' ?w0 =
        (Inl (wrap (UnableToCreateTemporaryVersion (TempZoneVersionName (config (example_provider ''lego_tmp''))) ''example.com.'')
           (Err (HTTPDoError (last (requests ?w3))))), (example_provider ''lego_tmp''\<lparr>activeVersionUUID := UUIDRef (mk_version ''v-live'' ''activeVersion001'' True)\<rparr>), ?w3)" .
    show ?thesis
      unfolding eq by code_simp
  qed
  have dup: "fst (Present failingEnv (example_provider ''lego_tmp'') ''example.com'' ''token'' ''keyAuth'' \<lparr>requests = [], server = (3::nat, example_registrar)\<rparr>) =
       Inl (Err (UnableToDuplicateRecords ''activeVersion001'' ''lego_tmp''
         (HTTPDoError (last (requests (snd (snd (Present failingEnv (example_provider ''lego_tmp'') ''example.com'' ''token'' ''keyAuth'' \<lparr>requests = [], server = (3::nat, example_registrar)\<rparr>))))))))
   \<and> map Method (requests (snd (snd (Present failingEnv (example_provider ''lego_tmp'') ''example.com'' ''token'' ''keyAuth'' \<lparr>requests = [], server = (3::nat, example_registrar)\<rparr>)))) =
       [''GET'', ''GET'', ''POST'', ''GET'']"
  proof -
    let ?w0 = "\<lparr>requests = [], server = (3::nat, example_registrar)\<rparr>"
    let ?s0 = "FindZoneVersion failingEnv (client (example_provider ''lego_tmp'')) ''example.com.'' (TempZoneVersionName (config (example_provider ''lego_tmp''))) ?w0"
    let ?w1 = "snd ?s0"
    have s0: "?s0 = (Inr Version_zero, ?w1)"
      by code_simp
    let ?s1 = "FindActiveZoneVersion failingEnv (client (example_provider ''lego_tmp'')) ''example.com.'' ?w1"
    let ?w2 = "snd ?s1"
    have s1: "?s1 = (Inr (mk_version ''v-live'' ''activeVersion001'' True), ?w2)"
      by code_simp
    let ?s2 = "CreateZoneVersion failingEnv (client (example_provider ''lego_tmp'')) ''example.com.'' (TempZoneVersionName (config (example_provider ''lego_tmp''))) ?w2"
    let ?w3 = "snd ?s2"
    have s2: "?s2 = (Inr (mk_version ''v-new-1'' ''lego_tmp'' False), ?w3)"
      by code_simp
    let ?s3 = "DuplicateZoneVersionRecords failingEnv (client (example_provider ''lego_tmp'')) ''example.com.'' (UUIDRef (mk_version ''v-live'' ''activeVersion001'' True)) (UUIDRef (mk_version ''v-new-1'' ''lego_tmp'' False)) ?w3"
    let ?w4 = "snd ?s3"
    have s3: "?s3 = (Inl (Err (HTTPDoError (last (requests ?w4)))), ?w4)"
      by code_simp
    from Present_stops_at_failing_step
           [where env = failingEnv and d = "example_provider ''lego_tmp''" and domainName = "''example.com''"
              and token = "''token''" and keyAuth = "''keyAuth''" and w = ?w0,
            THEN conjunct2, THEN mp, OF zone, THEN conjunct2, THEN conjunct2, THEN mp, OF s0, THEN conjunct2, THEN mp, OF s1, THEN conjunct2, THEN mp, OF s2, THEN conjunct1, THEN mp, OF s3]
    have eq: "Present failingEnv (example_provider ''lego_tmp'') ''example.com'' ''token'' ''keyAuth'' ?w0 =
        (Inl (wrap (UnableToDuplicateRecords (Version.Name (mk_version ''v-live'' ''activeVersion001'' True)) (Version.Name (mk_version ''v-new-1'' ''lego_tmp'' False)))
           (Err (HTTPDoError (last (requests ?w4))))), (example_provider ''lego_tmp''\<lparr>activeVersionUUID := UUIDRef (mk_version ''v-live'' ''activeVersion001'' True), tempVersionUUID := UUIDRef (mk_version ''v-new-1'' ''lego_tmp'' False)\<rparr>), ?w4)" .
    show ?thesis
      unfolding eq by code_simp
  qed
  have challenge: "fst (Present failingEnv (example_provider ''lego_tmp'') ''example.com'' ''token'' ''keyAuth'' \<lparr>requests = [], server = (9::nat, example_registrar)\<rparr>) =
       Inl (Err (UnableToCreateRecord ''_acme-challenge'' ''lego_tmp''
         (HTTPDoError (last (requests (snd (snd (Present failingEnv (example_provider ''lego_tmp'') ''example.com'' ''token'' ''keyAuth'' \<lparr>requests = [], server = (9::nat, example_registrar)\<rparr>))))))))
   \<and> map Method (requests (snd (snd (Present failingEnv (example_provider ''lego_tmp'') ''example.com'' ''token'' ''keyAuth'' \<lparr>requests = [], server = (9::nat, example_registrar)\<rparr>)))) =
       [''GET'', ''GET'', ''POST'', ''GET'', ''POST'', ''POST'', ''POST'', ''POST'', ''POST'', ''POST'']"
  proof -
    let ?w0 = "\<lparr>requests = [], server = (9::nat, example_registrar)\<rparr>"
    let ?s0 = "FindZoneVersion failingEnv (client (example_provider ''lego_tmp'')) ''example.com.'' (TempZoneVersionName (config (example_provider ''lego_tmp''))) ?w0"
    let ?w1 = "snd ?s0"
    have s0: "?s0 = (Inr Version_zero, ?w1)"
      by code_simp
    let ?s1 = "FindActiveZoneVersion failingEnv (client (example_provider ''lego_tmp'')) ''example.com.'' ?w1"
    let ?w2 = "snd ?s1"
    have s1: "?s1 = (Inr (mk_version ''v-live'' ''activeVersion001'' True), ?w2)"
      by code_simp
    let ?s2 = "CreateZoneVersion failingEnv (client (example_provider ''lego_tmp'')) ''example.com.'' (TempZoneVersionName (config (example_provider ''lego_tmp''))) ?w2"
    let ?w3 = "snd ?s2"
    have s2: "?s2 = (Inr (mk_version ''v-new-1'' ''lego_tmp'' False), ?w3)"
      by code_simp
    let ?s3 = "DuplicateZoneVersionRecords failingEnv (client (example_provider ''lego_tmp'')) ''example.com.'' (UUIDRef (mk_version ''v-live'' ''activeVersion001'' True)) (UUIDRef (mk_version ''v-new-1'' ''lego_tmp'' False)) ?w3"
    let ?w4 = "snd ?s3"
    have s3: "?s3 = (Inr (), ?w4)"
      by code_simp
    let ?s4 = "CreateRecord failingEnv (client (example_provider ''lego_tmp'')) ''example.com.'' (UUIDRef (mk_version ''v-new-1'' ''lego_tmp'' False))
         \<lparr>Type = ''TXT'', Name = Replace_once (EffectiveFQDN (GetChallengeInfo failingEnv ''example.com'' ''keyAuth'')) (''.'' @ ''example.com.'') [],
          Value = ChallengeValue (GetChallengeInfo failingEnv ''example.com'' ''keyAuth''), TTL = Config.TTL (config (example_provider ''lego_tmp'')), Priority = 0\<rparr> ?w4"
    let ?w5 = "snd ?s4"
    have s4: "?s4 = (Inl (Err (HTTPDoError (last (requests ?w5)))), ?w5)"
      by code_simp
    from Present_stops_at_failing_step
           [where env = failingEnv and d = "example_provider ''lego_tmp''" and domainName = "''example.com''"
              and token = "''token''" and keyAuth = "''keyAuth''" and w = ?w0,
            THEN conjunct2, THEN mp, OF zone, THEN conjunct2, THEN conjunct2, THEN mp, OF s0, THEN conjunct2, THEN mp, OF s1, THEN conjunct2, THEN mp, OF s2, THEN conjunct2, THEN mp, OF s3, THEN conjunct1, THEN mp, OF s4]
    have eq: "Present failingEnv (example_provider ''lego_tmp'') ''example.com'' ''token'' ''keyAuth'' ?w0 =
        (Inl (wrap (UnableToCreateRecord (Replace_once (EffectiveFQDN (GetChallengeInfo failingEnv ''example.com'' ''keyAuth'')) (''.'' @ ''example.com.'') []) (Version.Name (mk_version ''v-new-1'' ''lego_tmp'' False)))
           (Err (HTTPDoError (last (requests ?w5))))), (example_provider ''lego_tmp''\<lparr>activeVersionUUID := UUIDRef (mk_version ''v-live'' ''activeVersion001'' True), tempVersionUUID := UUIDRef (mk_version ''v-new-1'' ''lego_tmp'' False)\<rparr>), ?w5)" .
    show ?thesis
      unfolding eq by code_simp
  qed
  have enable: "fst (Present failingEnv (example_provider ''lego_tmp'') ''example.com'' ''token'' ''keyAuth'' \<lparr>requests = [], server = (10::nat, example_registrar)\<rparr>) =
       Inl (Err (UnableToEnableVersion ''lego_tmp''
         (HTTPDoError (last (requests (snd (snd (Present failingEnv (example_provider ''lego_tmp'') ''example.com'' ''token'' ''keyAuth'' \<lparr>requests = [], server = (10::nat, example_registrar)\<rparr>))))))))
   \<and> map Method (requests (snd (snd (Present failingEnv (example_provider ''lego_tmp'') ''example.com'' ''token'' ''keyAuth'' \<lparr>requests = [], server = (10::nat, example_registrar)\<rparr>)))) =
       [''GET'', ''GET'', ''POST'', ''GET'', ''POST'', ''POST'', ''POST'', ''POST'', ''POST'', ''POST'', ''PATCH'']"
  proof -
    let ?w0 = "\<lparr>requests = [], server = (10::nat, example_registrar)\<rparr>"
    let ?s0 = "FindZoneVersion failingEnv (client (example_provider ''lego_tmp'')) ''example.com.'' (TempZoneVersionName (config (example_provider ''lego_tmp''))) ?w0"
    let ?w1 = "snd ?s0"
    have s0: "?s0 = (Inr Version_zero, ?w1)"
      by code_simp
    let ?s1 = "FindActiveZoneVersion failingEnv (client (example_provider ''lego_tmp'')) ''example.com.'' ?w1"
    let ?w2 = "snd ?s1"
    have s1: "?s1 = (Inr (mk_version ''v-live'' ''activeVersion001'' True), ?w2)"
      by code_simp
    let ?s2 = "CreateZoneVersion failingEnv (client (example_provider ''lego_tmp'')) ''example.com.'' (TempZoneVersionName (config (example_provider ''lego_tmp''))) ?w2"
    let ?w3 = "snd ?s2"
    have s2: "?s2 = (Inr (mk_version ''v-new-1'' ''lego_tmp'' False), ?w3)"
      by code_simp
    let ?s3 = "DuplicateZoneVersionRecords failingEnv (client (example_provider ''lego_tmp'')) ''example.com.'' (UUIDRef (mk_version ''v-live'' ''activeVersion001'' True)) (UUIDRef (mk_version ''v-new-1'' ''lego_tmp'' False)) ?w3"
    let ?w4 = "snd ?s3"
    have s3: "?s3 = (Inr (), ?w4)"
      by code_simp
    let ?s4 = "CreateRecord failingEnv (client (example_provider ''lego_tmp'')) ''example.com.'' (UUIDRef (mk_version ''v-new-1'' ''lego_tmp'' False))
         \<lparr>Type = ''TXT'', Name = Replace_once (EffectiveFQDN (GetChallengeInfo failingEnv ''example.com'' ''keyAuth'')) (''.'' @ ''example.com.'') [],
          Value = ChallengeValue (GetChallengeInfo failingEnv ''example.com'' ''keyAuth''), TTL = Config.TTL (config (example_provider ''lego_tmp'')), Priority = 0\<rparr> ?w4"
    let ?w5 = "snd ?s4"
    have s4: "?s4 = (Inr ((mk_record ''TXT'' ''_acme-challenge'' ''keyAuth'' 120)\<lparr>Priority := 12\<rparr>), ?w5)"
      by code_simp
    let ?s5 = "EnableZone failingEnv (client (example_provider ''lego_tmp'')) ''example.com.'' (UUIDRef (mk_version ''v-new-1'' ''lego_tmp'' False)) ?w5"
    let ?w6 = "snd ?s5"
    have s5: "?s5 = (Inl (Err (HTTPDoError (last (requests ?w6)))), ?w6)"
      by code_simp
    from Present_stops_at_failing_step
           [where env = failingEnv and d = "example_provider ''lego_tmp''" and domainName = "''example.com''"
              and token = "''token''" and keyAuth = "''keyAuth''" and w = ?w0,
            THEN conjunct2, THEN mp, OF zone, THEN conjunct2, THEN conjunct2, THEN mp, OF s0, THEN conjunct2, THEN mp, OF s1, THEN conjunct2, THEN mp, OF s2, THEN conjunct2, THEN mp, OF s3, THEN conjunct2, THEN mp, OF s4, THEN conjunct1, THEN mp, OF s5]
    have eq: "Present failingEnv (example_provider ''lego_tmp'') ''example.com'' ''token'' ''keyAuth'' ?w0 =
        (Inl (wrap (UnableToEnableVersion (Version.Name (mk_version ''v-new-1'' ''lego_tmp'' False)))
           (Err (HTTPDoError (last (requests ?w6))))), (example_provider ''lego_tmp''\<lparr>activeVersionUUID := UUIDRef (mk_version ''v-live'' ''activeVersion001'' True), tempVersionUUID := UUIDRef (mk_version ''v-new-1'' ''lego_tmp'' False)\<rparr>), ?w6)" .
    show ?thesis
      unfolding eq by code_simp
  qed
  have ok: "fst (Present failingEnv (example_provider ''lego_tmp'') ''example.com'' ''token'' ''keyAuth'' \<lparr>requests = [], server = (11::nat, example_registrar)\<rparr>) = Inr ()
   \<and> map Method (requests (snd (snd (Present failingEnv (example_provider ''lego_tmp'') ''example.com'' ''token'' ''keyAuth'' \<lparr>requests = [], server = (11::nat, example_registrar)\<rparr>)))) =
       [''GET'', ''GET'', ''POST'', ''GET'', ''POST'', ''POST'', ''POST'', ''POST'', ''POST'', ''POST'', ''PATCH'']"
  proof -
    let ?w0 = "\<lparr>requests = [], server = (11::nat, example_registrar)\<rparr>"
    let ?s0 = "FindZoneVersion failingEnv (client (example_provider ''lego_tmp'')) ''example.com.'' (TempZoneVersionName (config (example_provider ''lego_tmp''))) ?w0"
    let ?w1 = "snd ?s0"
    have s0: "?s0 = (Inr Version_zero, ?w1)"
      by code_simp
    let ?s1 = "FindActiveZoneVersion failingEnv (client (example_provider ''lego_tmp'')) ''example.com.'' ?w1"
    let ?w2 = "snd ?s1"
    have s1: "?s1 = (Inr (mk_version ''v-live'' ''activeVersion001'' True), ?w2)"
      by code_simp
    let ?s2 = "CreateZoneVersion failingEnv (client (example_provider ''lego_tmp'')) ''example.com.'' (TempZoneVersionName (config (example_provider ''lego_tmp''))) ?w2"
    let ?w3 = "snd ?s2"
    have s2: "?s2 = (Inr (mk_version ''v-new-1'' ''lego_tmp'' False), ?w3)"
      by code_simp
    let ?s3 = "DuplicateZoneVersionRecords failingEnv (client (example_provider ''lego_tmp'')) ''example.com.'' (UUIDRef (mk_version ''v-live'' ''activeVersion001'' True)) (UUIDRef (mk_version ''v-new-1'' ''lego_tmp'' False)) ?w3"
    let ?w4 = "snd ?s3"
    have s3: "?s3 = (Inr (), ?w4)"
      by code_simp
    let ?s4 = "CreateRecord failingEnv (client (example_provider ''lego_tmp'')) ''example.com.'' (UUIDRef (mk_version ''v-new-1'' ''lego_tmp'' False))
         \<lparr>Type = ''TXT'', Name = Replace_once (EffectiveFQDN (GetChallengeInfo failingEnv ''example.com'' ''keyAuth'')) (''.'' @ ''example.com.'') [],
          Value = ChallengeValue (GetChallengeInfo failingEnv ''example.com'' ''keyAuth''), TTL = Config.TTL (config (example_provider ''lego_tmp'')), Priority = 0\<rparr> ?w4"
    let ?w5 = "snd ?s4"
    have s4: "?s4 = (Inr ((mk_record ''TXT'' ''_acme-challenge'' ''keyAuth'' 120)\<lparr>Priority := 12\<rparr>), ?w5)"
      by code_simp
    let ?s5 = "EnableZone failingEnv (client (example_provider ''lego_tmp'')) ''example.com.'' (UUIDRef (mk_version ''v-new-1'' ''lego_tmp'' False)) ?w5"
    let ?w6 = "snd ?s5"
    have s5: "?s5 = (Inr (), ?w6)"
      by code_simp
    from Present_stops_at_failing_step
           [where env = failingEnv and d = "example_provider ''lego_tmp''" and domainName = "''example.com''"
              and token = "''token''" and keyAuth = "''keyAuth''" and w = ?w0,
            THEN conjunct2, THEN mp, OF zone, THEN conjunct2, THEN conjunct2, THEN mp, OF s0, THEN conjunct2, THEN mp, OF s1, THEN conjunct2, THEN mp, OF s2, THEN conjunct2, THEN mp, OF s3, THEN conjunct2, THEN mp, OF s4, THEN conjunct2, THEN mp, OF s5]
    have eq: "Present failingEnv (example_provider ''lego_tmp'') ''example.com'' ''token'' ''keyAuth'' ?w0 =
        (Inr (), (example_provider ''lego_tmp''\<lparr>activeVersionUUID := UUIDRef (mk_version ''v-live'' ''activeVersion001'' True), tempVersionUUID := UUIDRef (mk_version ''v-new-1'' ''lego_tmp'' False)\<rparr>), ?w6)" .
    show ?thesis
      unfolding eq by code_simp
  qed
  from zone_fails conflict guard active create dup challenge enable ok show ?thesis
    by blast
qed

text \<open>
  C8. The lookup of the active version can fail without returning an error, and then
  \<open>Present\<close> returns none. When the guard has found no version under the label and
  the listing holds no active version, \<open>FindActiveZoneVersion\<close> panics at the index -1,
  and so does \<open>Present\<close>: it returns no error naming the step. No request of a later step
  is sent: the world is the one the listing left.
\<close>

theorem Present_panics_without_active_version:
  "FindZoneByFqdn env (EffectiveFQDN (GetChallengeInfo env domainName keyAuth)) = Inr authZone \<longrightarrow>
   FindZoneVersion env (client d) authZone (TempZoneVersionName (config d)) w =
     (Inr Version_zero, w1) \<longrightarrow>
   ListAllVersions env (client d) authZone w1 = (Inr vs, w2) \<longrightarrow>
   \<not> list_ex Active vs \<longrightarrow>
   Present env d domainName token keyAuth w =
     (Inl (Panic (IndexOutOfRange (- 1) (length vs))), d, w2)"
proof (intro impI)
  assume zone: "FindZoneByFqdn env (EffectiveFQDN (GetChallengeInfo env domainName keyAuth)) =
      Inr authZone"
    and guard: "FindZoneVersion env (client d) authZone (TempZoneVersionName (config d)) w =
      (Inr Version_zero, w1)"
    and listed: "ListAllVersions env (client d) authZone w1 = (Inr vs, w2)"
    and none: "\<not> list_ex Active vs"
  from none have "find Active vs = None"
    by (simp add: find_None_list_ex)
  with FindActiveZoneVersion_find [OF listed]
  have "FindActiveZoneVersion env (client d) authZone w1 =
      (Inl (Panic (IndexOutOfRange (- 1) (length vs))), w2)"
    by simp
  with zone guard show "Present env d domainName token keyAuth w =
      (Inl (Panic (IndexOutOfRange (- 1) (length vs))), d, w2)"
    by (simp add: Present_def Let_def wrap_def)
qed

theorem Present_panics_without_active_version_witness:
  "fst (Present registrarEnv (example_provider ''lego_tmp'') ''example.com'' ''token''
          ''keyAuth'' \<lparr>requests = [], server = inactive_registrar\<rparr>) =
     Inl (Panic (IndexOutOfRange (- 1) 5))
   \<and> map Method (requests (snd (snd
        (Present registrarEnv (example_provider ''lego_tmp'') ''example.com'' ''token''
           ''keyAuth'' \<lparr>requests = [], server = inactive_registrar\<rparr>)))) =
     [''GET'', ''GET'']"
proof -
  let ?d = "example_provider ''lego_tmp''"
  let ?w = "\<lparr>requests = [], server = inactive_registrar\<rparr>"
  let ?guard = "FindZoneVersion registrarEnv (client ?d) ''example.com.''
      (TempZoneVersionName (config ?d)) ?w"
  let ?w1 = "snd ?guard"
  let ?list = "ListAllVersions registrarEnv (client ?d) ''example.com.'' ?w1"
  let ?w2 = "snd ?list"
  have zone: "FindZoneByFqdn registrarEnv
      (EffectiveFQDN (GetChallengeInfo registrarEnv ''example.com'' ''keyAuth'')) =
      Inr ''example.com.''"
    by code_simp
  have guard: "?guard = (Inr Version_zero, ?w1)"
    by code_simp
  have listed: "?list = (Inr (versions inactive_registrar), ?w2)"
    by code_simp
  have none: "\<not> list_ex Active (versions inactive_registrar)"
    by code_simp
  from Present_panics_without_active_version
         [where env = registrarEnv and d = ?d and domainName = "''example.com''"
            and token = "''token''" and keyAuth = "''keyAuth''" and w = ?w,
          THEN mp, OF zone, THEN mp, OF guard, THEN mp, OF listed, THEN mp, OF none]
  have eq: "Present registrarEnv ?d ''example.com'' ''token'' ''keyAuth'' ?w =
      (Inl (Panic (IndexOutOfRange (- 1) (length (versions inactive_registrar)))), ?d, ?w2)" .
  show ?thesis
    unfolding eq by code_simp
qed

section \<open>Which records are duplicated\<close>

text \<open>
  What the pattern of the source accepts. A run of literal characters matches at a
  position exactly when the text continues with these characters there; the pattern
  parses into six alternatives, of which only the first is anchored at the start and
  only the last at the end. So a type passes the filter when it begins with \<open>A\<close>, or
  contains \<open>AAAA\<close>, \<open>CNAME\<close>, \<open>MX\<close> or \<open>SRV\<close> anywhere, or ends in \<open>TXT\<close>.
\<close>

lemma take_drop_Cons:
  "take (Suc n) (drop i s) = c # p \<longleftrightarrow> i < length s \<and> s ! i = c \<and> take n (drop (Suc i) s) = p"
proof (cases "i < length s")
  case True
  then have "drop i s = s ! i # drop (Suc i) s"
    by (simp add: Cons_nth_drop_Suc)
  with True show ?thesis by auto
next
  case False
  then show ?thesis by simp
qed

lemma ends_literals:
  "p \<noteq> [] \<Longrightarrow>
     ends (mk_concat (map Literal p)) s i =
       (if take (length p) (drop i s) = p then [i + length p] else [])"
proof (induction p arbitrary: i)
  case Nil
  then show ?case by simp
next
  case (Cons c p)
  show ?case
  proof (cases p)
    case Nil
    then show ?thesis
      using take_drop_Cons [of 0 i s c "[]"] by auto
  next
    case (Cons c' p')
    with Cons.IH [of "Suc i"] show ?thesis
      using take_drop_Cons [of "length p" i s c p] by auto
  qed
qed

lemma ends_Alternate:
  "ends (Alternate a b) t i \<noteq> [] \<longleftrightarrow> ends a t i \<noteq> [] \<or> ends b t i \<noteq> []"
  by simp

lemma ends_group:
  "p \<noteq> [] \<Longrightarrow>
     ends (Capture (mk_concat (map Literal p))) t i \<noteq> [] \<longleftrightarrow> take (length p) (drop i t) = p"
  by (simp add: ends_literals)

lemma ends_anchored_first:
  "p \<noteq> [] \<Longrightarrow>
     ends (Concat BeginText (Capture (mk_concat (map Literal p)))) t i \<noteq> [] \<longleftrightarrow>
       i = 0 \<and> take (length p) (drop i t) = p"
  by (auto simp: ends_literals)

lemma ends_anchored_last:
  "p \<noteq> [] \<Longrightarrow>
     ends (Concat (Capture (mk_concat (map Literal p))) EndText) t i \<noteq> [] \<longleftrightarrow>
       take (length p) (drop i t) = p \<and> i + length p = length t"
  by (auto simp: ends_literals)

lemma prefix_take: "prefix p t \<longleftrightarrow> take (length p) t = p"
  by (metis append_eq_conv_conj prefix_def take_is_prefix)

lemma sublist_take_drop:
  "p \<noteq> [] \<Longrightarrow> sublist p t \<longleftrightarrow> (\<exists>i \<le> length t. take (length p) (drop i t) = p)"
proof
  assume "p \<noteq> []" and "sublist p t"
  then obtain ps ss where "t = ps @ p @ ss"
    by (auto simp: sublist_def)
  then have "length ps \<le> length t \<and> take (length p) (drop (length ps) t) = p"
    by simp
  then show "\<exists>i \<le> length t. take (length p) (drop i t) = p"
    by blast
next
  assume "\<exists>i \<le> length t. take (length p) (drop i t) = p"
  then obtain i where "take (length p) (drop i t) = p"
    by blast
  then have "t = take i t @ p @ drop (length p) (drop i t)"
    by (metis append_take_drop_id)
  then show "sublist p t"
    by (auto simp: sublist_def)
qed

lemma suffix_take_drop:
  "suffix p t \<longleftrightarrow> (\<exists>i \<le> length t. take (length p) (drop i t) = p \<and> i + length p = length t)"
proof
  assume "suffix p t"
  then obtain ps where "t = ps @ p"
    by (auto simp: suffix_def)
  then have "length ps \<le> length t \<and> take (length p) (drop (length ps) t) = p
      \<and> length ps + length p = length t"
    by simp
  then show "\<exists>i \<le> length t. take (length p) (drop i t) = p \<and> i + length p = length t"
    by blast
next
  assume "\<exists>i \<le> length t. take (length p) (drop i t) = p \<and> i + length p = length t"
  then obtain i where i: "take (length p) (drop i t) = p" "i + length p = length t"
    by blast
  then have "drop i t = p"
    by (metis add_diff_cancel_left' length_drop order_refl take_all)
  then have "t = take i t @ p"
    by (metis append_take_drop_id)
  then show "suffix p t"
    by (auto simp: suffix_def)
qed

lemma allowedTypesRegexp_parsed:
  "MustCompile ''^(A)|(AAAA)|(CNAME)|(MX)|(SRV)|(TXT)$'' =
     Inr (Alternate (Concat BeginText (Capture (mk_concat (map Literal ''A''))))
         (Alternate (Capture (mk_concat (map Literal ''AAAA'')))
         (Alternate (Capture (mk_concat (map Literal ''CNAME'')))
         (Alternate (Capture (mk_concat (map Literal ''MX'')))
         (Alternate (Capture (mk_concat (map Literal ''SRV'')))
                    (Concat (Capture (mk_concat (map Literal ''TXT''))) EndText))))))"
  by code_simp

lemma allowedTypesRegexp_matches:
  assumes "MustCompile ''^(A)|(AAAA)|(CNAME)|(MX)|(SRV)|(TXT)$'' = Inr re"
  shows "MatchString re t \<longleftrightarrow>
           prefix ''A'' t \<or> sublist ''AAAA'' t \<or> sublist ''CNAME'' t \<or> sublist ''MX'' t
           \<or> sublist ''SRV'' t \<or> suffix ''TXT'' t"
proof -
  from assms allowedTypesRegexp_parsed
  have re: "re = Alternate (Concat BeginText (Capture (mk_concat (map Literal ''A''))))
         (Alternate (Capture (mk_concat (map Literal ''AAAA'')))
         (Alternate (Capture (mk_concat (map Literal ''CNAME'')))
         (Alternate (Capture (mk_concat (map Literal ''MX'')))
         (Alternate (Capture (mk_concat (map Literal ''SRV'')))
                    (Concat (Capture (mk_concat (map Literal ''TXT''))) EndText)))))"
    by simp
  have at: "ends re t i \<noteq> [] \<longleftrightarrow>
      (i = 0 \<and> take (length ''A'') (drop i t) = ''A'')
      \<or> take (length ''AAAA'') (drop i t) = ''AAAA''
      \<or> take (length ''CNAME'') (drop i t) = ''CNAME''
      \<or> take (length ''MX'') (drop i t) = ''MX''
      \<or> take (length ''SRV'') (drop i t) = ''SRV''
      \<or> (take (length ''TXT'') (drop i t) = ''TXT'' \<and> i + length ''TXT'' = length t)" for i
    unfolding re
    by (simp only: ends_Alternate
        ends_anchored_first [of "''A''", OF list.distinct(2)]
        ends_group [of "''AAAA''", OF list.distinct(2)]
        ends_group [of "''CNAME''", OF list.distinct(2)]
        ends_group [of "''MX''", OF list.distinct(2)]
        ends_group [of "''SRV''", OF list.distinct(2)]
        ends_anchored_last [of "''TXT''", OF list.distinct(2)])
  have "MatchString re t \<longleftrightarrow> (\<exists>i \<le> length t. ends re t i \<noteq> [])"
    by (auto simp: MatchString_def list_ex_iff less_Suc_eq_le simp del: upt_Suc)
  also have "\<dots> \<longleftrightarrow>
      (\<exists>i \<le> length t. i = 0 \<and> take (length ''A'') (drop i t) = ''A'')
      \<or> (\<exists>i \<le> length t. take (length ''AAAA'') (drop i t) = ''AAAA'')
      \<or> (\<exists>i \<le> length t. take (length ''CNAME'') (drop i t) = ''CNAME'')
      \<or> (\<exists>i \<le> length t. take (length ''MX'') (drop i t) = ''MX'')
      \<or> (\<exists>i \<le> length t. take (length ''SRV'') (drop i t) = ''SRV'')
      \<or> (\<exists>i \<le> length t. take (length ''TXT'') (drop i t) = ''TXT''
            \<and> i + length ''TXT'' = length t)"
    unfolding at by blast
  also have "\<dots> \<longleftrightarrow> prefix ''A'' t \<or> sublist ''AAAA'' t \<or> sublist ''CNAME'' t
      \<or> sublist ''MX'' t \<or> sublist ''SRV'' t \<or> suffix ''TXT'' t"
    unfolding prefix_take [of "''A''" t] suffix_take_drop [of "''TXT''" t]
      sublist_take_drop [of "''AAAA''" t, simplified] sublist_take_drop [of "''CNAME''" t, simplified]
      sublist_take_drop [of "''MX''" t, simplified] sublist_take_drop [of "''SRV''" t, simplified]
    by simp
  finally show ?thesis .
qed

text \<open>
  The source of the spec's example, with one record each of the types A, NS, TXT and
  SOA: the A and the TXT record reach the target, the other two do not.
\<close>

lemma DuplicateZoneVersionRecords_four_types:
  "map Type (the (map_of (zones (server
       (snd (DuplicateZoneVersionRecords registrarEnv example_client ''example.com.''
               ''v-four'' ''v-empty'' example_world)))) ''v-empty'')) =
     [''A'', ''TXT'']"
  by code_simp

text \<open>
  C2. The filter of \<open>DuplicateZoneVersionRecords\<close> is a search for the pattern
  \<open>^(A)|(AAAA)|(CNAME)|(MX)|(SRV)|(TXT)$\<close>, in which the anchor \<open>^\<close> belongs to the first
  alternative only and \<open>$\<close> to the last only. A type that begins with \<open>A\<close> passes it: from
  a source version holding an A, an AFSDB and a TXT record, the function posts all three
  to the target, the AFSDB record among them, which is on no allow-list.
\<close>

theorem DuplicateZoneVersionRecords_copies_AFSDB:
  "map Request.Body (sent example_world
     (snd (DuplicateZoneVersionRecords registrarEnv example_client ''example.com.''
             ''v-old'' ''v-empty'' example_world))) =
     [None,
      Some (RecordPayload
        \<lparr>Type = ''A'', Name = ''www'', Value = ''10.0.0.2'', TTL = 300, Priority = 12\<rparr>),
      Some (RecordPayload
        \<lparr>Type = ''AFSDB'', Name = ''@'', Value = ''1 afs.example.com.'', TTL = 300,
         Priority = 12\<rparr>),
      Some (RecordPayload
        \<lparr>Type = ''TXT'', Name = ''lego'', Value = ''version:none'', TTL = 300, Priority = 12\<rparr>)]
   \<and> map Type (the (map_of (zones (server
         (snd (DuplicateZoneVersionRecords registrarEnv example_client ''example.com.''
                 ''v-old'' ''v-empty'' example_world)))) ''v-empty'')) =
     [''A'', ''AFSDB'', ''TXT'']"
  by code_simp

section \<open>Presenting twice\<close>

text \<open>
  With the label \<open>lego_tmp\<close>, which is the name \<open>CreateZoneVersion\<close> sends, the second
  \<open>Present\<close> finds the version the first one created and stops with the conflict error.
\<close>

lemma Present_twice_default_label:
  "(case Present registrarEnv (example_provider ''lego_tmp'') ''example.com'' ''token''
           ''keyAuth'' example_world of
      (r1, d1, w1) \<Rightarrow>
        r1 = Inr ()
        \<and> fst (Present registrarEnv d1 ''example.com'' ''token'' ''keyAuth'' w1) =
            Inl (Err (VersionAlreadyExists ''lego_tmp'' ''example.com.'')))"
  by code_simp

text \<open>
  C3. With the configured label \<open>custom_tmp\<close> the first \<open>Present\<close> succeeds and leaves a new
  version named \<open>lego_tmp\<close>, since \<open>CreateZoneVersion\<close> does not send the name it is given.
  The guard of the second \<open>Present\<close> looks for a version named \<open>custom_tmp\<close>, finds none, and
  the second \<open>Present\<close> succeeds too: it creates a second version named \<open>lego_tmp\<close> and
  returns no conflict error.
\<close>

theorem Present_twice_custom_label:
  "(case Present registrarEnv (example_provider ''custom_tmp'') ''example.com'' ''token''
           ''keyAuth'' example_world of
      (r1, d1, w1) \<Rightarrow>
        r1 = Inr ()
        \<and> map Version.Name (versions (server w1)) =
            [''notActiveVersion002'', ''activeVersion001'', ''three'', ''four'', ''empty'',
             ''lego_tmp'']
        \<and> (case Present registrarEnv d1 ''example.com'' ''token'' ''keyAuth'' w1 of
             (r2, d2, w2) \<Rightarrow>
               r2 = Inr ()
               \<and> map Version.Name (versions (server w2)) =
                   [''notActiveVersion002'', ''activeVersion001'', ''three'', ''four'', ''empty'',
                    ''lego_tmp'', ''lego_tmp'']))"
  by code_simp

section \<open>The requests of every operation\<close>

lemma do_success:
  "do env c req unmarshal result w = (Inr v, w1) \<Longrightarrow> requests w1 = requests w @ [req]"
  by (auto simp: do_def Let_def split: option.splits prod.splits sum.splits if_splits)

lemma newJSONRequest_success:
  "newJSONRequest env c m endpoint payload = Inr req \<Longrightarrow>
     req = \<lparr>Method = m, Endpoint = endpoint, Body = payload,
            Header = [(''Accept'', ''application/json''),
                      (''Authorization'', ''Bearer '' @ apiToken c)] @
                     (case payload of None \<Rightarrow> []
                      | Some p \<Rightarrow> [(''Content-Type'', ''application/json'')])\<rparr>"
  by (auto simp: newJSONRequest_def split: if_splits)

lemma CreateRecord_success:
  assumes "CreateRecord env c authZone versionID rcd w = (Inr created, w1)"
  shows "requests w1 = requests w @
      [\<lparr>Method = ''POST'',
        Endpoint = JoinPath (baseURL c)
                     [''domain'', butlast authZone, ''version'', versionID, ''zone''],
        Body = Some (RecordPayload (rcd\<lparr>Priority := 12\<rparr>)),
        Header = [(''Accept'', ''application/json''),
                  (''Authorization'', ''Bearer '' @ apiToken c),
                  (''Content-Type'', ''application/json'')]\<rparr>]"
proof -
  have payload: "\<lparr>Type = Type rcd, Name = Record.Name rcd, Value = Value rcd,
          TTL = Record.TTL rcd, Priority = DefaultRecordPriority\<rparr> = rcd\<lparr>Priority := 12\<rparr>"
    by (simp add: DefaultRecordPriority_def)
  from assms show ?thesis
    by (auto simp: CreateRecord_def slice_authZone Let_def payload
        split: if_splits sum.splits dest!: newJSONRequest_success do_success)
qed

lemma GetAllRecords_success:
  assumes "GetAllRecords env c authZone versionUUID w = (Inr records, w1)"
  shows "requests w1 = requests w @
      [\<lparr>Method = ''GET'',
        Endpoint = JoinPath (baseURL c)
                     [''domain'', butlast authZone, ''version'', versionUUID, ''zone''],
        Body = None,
        Header = [(''Accept'', ''application/json''),
                  (''Authorization'', ''Bearer '' @ apiToken c)]\<rparr>]"
  using assms
  by (auto simp: GetAllRecords_def slice_authZone
      split: if_splits sum.splits dest!: newJSONRequest_success do_success)

lemma duplicate_loop_success:
  "duplicate_loop env c authZone t re rs w = (Inr (), w') \<Longrightarrow>
     prefix (requests w) (requests w')
     \<and> sent w w' =
         map (\<lambda>r. \<lparr>Method = ''POST'',
                    Endpoint = JoinPath (baseURL c)
                                 [''domain'', butlast authZone, ''version'', t, ''zone''],
                    Body = Some (RecordPayload
                             \<lparr>Type = Type r, Name = Record.Name r, Value = Value r,
                              TTL = Record.TTL r, Priority = 12\<rparr>),
                    Header = [(''Accept'', ''application/json''),
                              (''Authorization'', ''Bearer '' @ apiToken c),
                              (''Content-Type'', ''application/json'')]\<rparr>)
           (filter (\<lambda>r. MatchString re (Type r)) rs)"
proof (induction rs arbitrary: w)
  case Nil
  then show ?case by (simp add: sent_same)
next
  case (Cons r rs)
  show ?case
  proof (cases "MatchString re (Type r)")
    case False
    with Cons show ?thesis by simp
  next
    case True
    let ?rec = "\<lparr>Type = Type r, Name = Record.Name r, Value = Value r, TTL = Record.TTL r,
                 Priority = 0\<rparr>"
    from True Cons.prems obtain created w1
      where step: "CreateRecord env c authZone t ?rec w = (Inr created, w1)"
        and rest: "duplicate_loop env c authZone t re rs w1 = (Inr (), w')"
      by (auto split: prod.splits sum.splits)
    note one = CreateRecord_success [OF step]
    note more = Cons.IH [OF rest]
    from one have first: "prefix (requests w) (requests w1)" "sent w w1 = [last (requests w1)]"
      by (simp_all add: sent_def)
    from first(1) more have "prefix (requests w) (requests w')"
      by (meson prefix_order.trans)
    moreover from first more have "sent w w' = sent w w1 @ sent w1 w'"
      by (simp add: sent_trans [of w w1 w'])
    ultimately show ?thesis
      using True one first(2) more by simp
  qed
qed

lemma DuplicateZoneVersionRecords_success:
  assumes listed: "GetAllRecords env c authZone src w = (Inr records, w1)"
    and copied: "DuplicateZoneVersionRecords env c authZone src tgt w = (Inr (), w2)"
  shows "sent w w2 =
     \<lparr>Method = ''GET'',
      Endpoint = JoinPath (baseURL c) [''domain'', butlast authZone, ''version'', src, ''zone''],
      Body = None,
      Header = [(''Accept'', ''application/json''),
                (''Authorization'', ''Bearer '' @ apiToken c)]\<rparr> #
     map (\<lambda>r. \<lparr>Method = ''POST'',
                Endpoint = JoinPath (baseURL c)
                             [''domain'', butlast authZone, ''version'', tgt, ''zone''],
                Body = Some (RecordPayload
                         \<lparr>Type = Type r, Name = Record.Name r, Value = Value r,
                          TTL = Record.TTL r, Priority = 12\<rparr>),
                Header = [(''Accept'', ''application/json''),
                          (''Authorization'', ''Bearer '' @ apiToken c),
                          (''Content-Type'', ''application/json'')]\<rparr>)
       (filter (\<lambda>r. prefix ''A'' (Type r) \<or> sublist ''AAAA'' (Type r)
                   \<or> sublist ''CNAME'' (Type r) \<or> sublist ''MX'' (Type r)
                   \<or> sublist ''SRV'' (Type r) \<or> suffix ''TXT'' (Type r)) records)"
proof -
  obtain re where re: "MustCompile ''^(A)|(AAAA)|(CNAME)|(MX)|(SRV)|(TXT)$'' = Inr re"
    using allowedTypesRegexp_parsed by blast
  with listed copied have loop: "duplicate_loop env c authZone tgt re records w1 = (Inr (), w2)"
    by (simp add: DuplicateZoneVersionRecords_def)
  note rest = duplicate_loop_success [OF loop]
  note first = GetAllRecords_success [OF listed]
  from first have "prefix (requests w) (requests w1)"
    by simp
  with rest have "sent w w2 = sent w w1 @ sent w1 w2"
    by (simp add: sent_trans [of w w1 w2])
  moreover from first have "sent w w1 = [last (requests w1)]"
    by (simp add: sent_def)
  ultimately show ?thesis
    using first rest by (simp add: allowedTypesRegexp_matches [OF re])
qed

lemma DuplicateZoneVersionRecords_error:
  "GetAllRecords env c authZone src w = (Inl e, w1) \<Longrightarrow>
     DuplicateZoneVersionRecords env c authZone src tgt w = (Inl e, w1)"
  by (simp add: DuplicateZoneVersionRecords_def)

text \<open>
  C10. Every operation of the client that takes a zone name panics on the empty zone
  name, at the slice \<open>authZone[0 : len(authZone)-1]\<close>, returns no error and sends nothing.
  On any other zone name each of the seven operations that build an endpoint sends
  exactly one request, unless the request cannot be built or the client has no HTTP
  client, and the path of that request has, after the element \<open>domain\<close>, the zone name
  without its last character, whatever that character is. The four lookups built on a
  listing leave the world of that listing. \<open>DuplicateZoneVersionRecords\<close> fails with the
  listing when the listing fails, and when it succeeds it has sent the listing request
  and then one creation request for each record whose type passes the pattern, in the
  order of the listing, all under the same segment.
\<close>

theorem domain_segment_is_butlast:
  fixes env :: "('raw, 'b) Env" and c :: Client and authZone :: string
  defines "boom \<equiv> Panic (SliceBoundsOutOfRange 0 (- 1) 0)"
    and "plain \<equiv> [(''Accept'', ''application/json''),
                    (''Authorization'', ''Bearer '' @ apiToken c)]"
    and "typed \<equiv> [(''Accept'', ''application/json''),
                    (''Authorization'', ''Bearer '' @ apiToken c),
                    (''Content-Type'', ''application/json'')]"
    and "endpoint \<equiv> \<lambda>elems. JoinPath (baseURL c) (''domain'' # butlast authZone # elems)"
    and "unsent \<equiv> \<lambda>m elems. authZone = []
            \<or> \<not> NewRequestWithContext env m
                  (JoinPath (baseURL c) (''domain'' # butlast authZone # elems))
            \<or> Client.HTTPClient c = None"
  shows
  "(authZone = [] \<longrightarrow>
      ListAllVersions env c authZone w = (Inl boom, w)
    \<and> FindActiveZoneVersion env c authZone w = (Inl boom, w)
    \<and> FindZoneVersion env c authZone versionName w = (Inl boom, w)
    \<and> GetZoneVersion env c authZone versionUUID w = (Inl boom, w)
    \<and> CreateZoneVersion env c authZone versionName w = (Inl boom, w)
    \<and> DeleteZoneVersion env c authZone versionUUID w = (Inl boom, w)
    \<and> GetAllRecords env c authZone versionUUID w = (Inl boom, w)
    \<and> GetRecord env c authZone versionUUID recordName recordType w = (Inl boom, w)
    \<and> ReadVersionUUID env c authZone versionUUID w = (Inl boom, w)
    \<and> EnableZone env c authZone versionUUID w = (Inl boom, w)
    \<and> CreateRecord env c authZone versionUUID rcd w = (Inl boom, w)
    \<and> DuplicateZoneVersionRecords env c authZone versionUUID targetVersionUUID w = (Inl boom, w))
   \<and> (\<forall>r \<in> set (sent w (snd (ListAllVersions env c authZone w)))
           \<union> set (sent w (snd (FindActiveZoneVersion env c authZone w)))
           \<union> set (sent w (snd (FindZoneVersion env c authZone versionName w)))
           \<union> set (sent w (snd (GetZoneVersion env c authZone versionUUID w)))
           \<union> set (sent w (snd (CreateZoneVersion env c authZone versionName w)))
           \<union> set (sent w (snd (DeleteZoneVersion env c authZone versionUUID w)))
           \<union> set (sent w (snd (GetAllRecords env c authZone versionUUID w)))
           \<union> set (sent w (snd (GetRecord env c authZone versionUUID recordName recordType w)))
           \<union> set (sent w (snd (ReadVersionUUID env c authZone versionUUID w)))
           \<union> set (sent w (snd (EnableZone env c authZone versionUUID w)))
           \<union> set (sent w (snd (CreateRecord env c authZone versionUUID rcd w)))
           \<union> set (sent w (snd (DuplicateZoneVersionRecords env c authZone versionUUID
                                   targetVersionUUID w))).
        domain_segment r = Some (butlast authZone))
   \<and> sent w (snd (ListAllVersions env c authZone w)) =
       (if unsent ''GET'' [''version''] then []
        else [\<lparr>Method = ''GET'', Endpoint = endpoint [''version''], Body = None,
               Header = plain\<rparr>])
   \<and> sent w (snd (GetZoneVersion env c authZone versionUUID w)) =
       (if unsent ''GET'' [''version'', versionUUID] then []
        else [\<lparr>Method = ''GET'', Endpoint = endpoint [''version'', versionUUID], Body = None,
               Header = plain\<rparr>])
   \<and> sent w (snd (CreateZoneVersion env c authZone versionName w)) =
       (if \<not> Encode env (NamePayload ''lego_tmp'') \<or> unsent ''POST'' [''version''] then []
        else [\<lparr>Method = ''POST'', Endpoint = endpoint [''version''],
               Body = Some (NamePayload ''lego_tmp''), Header = typed\<rparr>])
   \<and> sent w (snd (DeleteZoneVersion env c authZone versionUUID w)) =
       (if unsent ''DELETE'' [''version'', versionUUID] then []
        else [\<lparr>Method = ''DELETE'', Endpoint = endpoint [''version'', versionUUID], Body = None,
               Header = plain\<rparr>])
   \<and> sent w (snd (GetAllRecords env c authZone versionUUID w)) =
       (if unsent ''GET'' [''version'', versionUUID, ''zone''] then []
        else [\<lparr>Method = ''GET'', Endpoint = endpoint [''version'', versionUUID, ''zone''],
               Body = None, Header = plain\<rparr>])
   \<and> sent w (snd (EnableZone env c authZone versionUUID w)) =
       (if unsent ''PATCH'' [''version'', versionUUID, ''enable''] then []
        else [\<lparr>Method = ''PATCH'', Endpoint = endpoint [''version'', versionUUID, ''enable''],
               Body = None, Header = plain\<rparr>])
   \<and> sent w (snd (CreateRecord env c authZone versionUUID rcd w)) =
       (if \<not> Encode env (RecordPayload (rcd\<lparr>Priority := 12\<rparr>))
           \<or> unsent ''POST'' [''version'', versionUUID, ''zone''] then []
        else [\<lparr>Method = ''POST'', Endpoint = endpoint [''version'', versionUUID, ''zone''],
               Body = Some (RecordPayload (rcd\<lparr>Priority := 12\<rparr>)), Header = typed\<rparr>])
   \<and> snd (FindActiveZoneVersion env c authZone w) = snd (ListAllVersions env c authZone w)
   \<and> snd (FindZoneVersion env c authZone versionName w) = snd (ListAllVersions env c authZone w)
   \<and> snd (GetRecord env c authZone versionUUID recordName recordType w) =
       snd (GetAllRecords env c authZone versionUUID w)
   \<and> snd (ReadVersionUUID env c authZone versionUUID w) =
       snd (GetAllRecords env c authZone versionUUID w)
   \<and> (GetAllRecords env c authZone versionUUID w = (Inl e, w1) \<longrightarrow>
        DuplicateZoneVersionRecords env c authZone versionUUID targetVersionUUID w = (Inl e, w1))
   \<and> (GetAllRecords env c authZone versionUUID w = (Inr records, w1)
        \<and> DuplicateZoneVersionRecords env c authZone versionUUID targetVersionUUID w =
            (Inr (), w2) \<longrightarrow>
        sent w w2 =
          \<lparr>Method = ''GET'', Endpoint = endpoint [''version'', versionUUID, ''zone''], Body = None,
           Header = plain\<rparr> #
          map (\<lambda>r. \<lparr>Method = ''POST'',
                     Endpoint = endpoint [''version'', targetVersionUUID, ''zone''],
                     Body = Some (RecordPayload
                              \<lparr>Type = Type r, Name = Record.Name r, Value = Value r,
                               TTL = Record.TTL r, Priority = 12\<rparr>),
                     Header = typed\<rparr>)
            (filter (\<lambda>r. prefix ''A'' (Type r) \<or> sublist ''AAAA'' (Type r)
                        \<or> sublist ''CNAME'' (Type r) \<or> sublist ''MX'' (Type r)
                        \<or> sublist ''SRV'' (Type r) \<or> suffix ''TXT'' (Type r)) records))"
proof -
  have panics: "authZone = [] \<longrightarrow>
      ListAllVersions env c authZone w = (Inl boom, w)
    \<and> FindActiveZoneVersion env c authZone w = (Inl boom, w)
    \<and> FindZoneVersion env c authZone versionName w = (Inl boom, w)
    \<and> GetZoneVersion env c authZone versionUUID w = (Inl boom, w)
    \<and> CreateZoneVersion env c authZone versionName w = (Inl boom, w)
    \<and> DeleteZoneVersion env c authZone versionUUID w = (Inl boom, w)
    \<and> GetAllRecords env c authZone versionUUID w = (Inl boom, w)
    \<and> GetRecord env c authZone versionUUID recordName recordType w = (Inl boom, w)
    \<and> ReadVersionUUID env c authZone versionUUID w = (Inl boom, w)
    \<and> EnableZone env c authZone versionUUID w = (Inl boom, w)
    \<and> CreateRecord env c authZone versionUUID rcd w = (Inl boom, w)
    \<and> DuplicateZoneVersionRecords env c authZone versionUUID targetVersionUUID w = (Inl boom, w)"
    unfolding boom_def by (simp add: empty_zone_panics empty_zone_panics_through)
  note direct =
    ListAllVersions_sends(2) [where authZone = authZone and w = w and env = env and c = c]
    GetZoneVersion_sends(2) [where authZone = authZone and w = w and env = env and c = c
      and u = versionUUID]
    CreateZoneVersion_sends(2) [where authZone = authZone and w = w and env = env and c = c
      and n = versionName]
    DeleteZoneVersion_sends(2) [where authZone = authZone and w = w and env = env and c = c
      and u = versionUUID]
    GetAllRecords_sends(2) [where authZone = authZone and w = w and env = env and c = c
      and u = versionUUID]
    EnableZone_sends(2) [where authZone = authZone and w = w and env = env and c = c
      and u = versionUUID]
    CreateRecord_sends(2) [where authZone = authZone and w = w and env = env and c = c
      and u = versionUUID and rcd = rcd]
    DuplicateZoneVersionRecords_sends [where authZone = authZone and w = w and env = env
      and c = c and src = versionUUID and tgt = targetVersionUUID]
  from direct have segments: "\<forall>r \<in> set (sent w (snd (ListAllVersions env c authZone w)))
           \<union> set (sent w (snd (FindActiveZoneVersion env c authZone w)))
           \<union> set (sent w (snd (FindZoneVersion env c authZone versionName w)))
           \<union> set (sent w (snd (GetZoneVersion env c authZone versionUUID w)))
           \<union> set (sent w (snd (CreateZoneVersion env c authZone versionName w)))
           \<union> set (sent w (snd (DeleteZoneVersion env c authZone versionUUID w)))
           \<union> set (sent w (snd (GetAllRecords env c authZone versionUUID w)))
           \<union> set (sent w (snd (GetRecord env c authZone versionUUID recordName recordType w)))
           \<union> set (sent w (snd (ReadVersionUUID env c authZone versionUUID w)))
           \<union> set (sent w (snd (EnableZone env c authZone versionUUID w)))
           \<union> set (sent w (snd (CreateRecord env c authZone versionUUID rcd w)))
           \<union> set (sent w (snd (DuplicateZoneVersionRecords env c authZone versionUUID
                                   targetVersionUUID w))).
        domain_segment r = Some (butlast authZone)"
    unfolding snd_FindActiveZoneVersion snd_FindZoneVersion snd_GetRecord snd_ReadVersionUUID
      list_all_iff by (intro ballI) auto
  have payload: "\<lparr>Type = Type rcd, Name = Record.Name rcd, Value = Value rcd,
          TTL = Record.TTL rcd, Priority = DefaultRecordPriority\<rparr> = rcd\<lparr>Priority := 12\<rparr>"
    by (simp add: DefaultRecordPriority_def)
  have list: "sent w (snd (ListAllVersions env c authZone w)) =
       (if unsent ''GET'' [''version''] then []
        else [\<lparr>Method = ''GET'', Endpoint = endpoint [''version''], Body = None,
               Header = plain\<rparr>])"
    unfolding unsent_def endpoint_def plain_def
    by (simp add: ListAllVersions_def slice_authZone newJSONRequest_def sent_do sent_same)
  have get: "sent w (snd (GetZoneVersion env c authZone versionUUID w)) =
       (if unsent ''GET'' [''version'', versionUUID] then []
        else [\<lparr>Method = ''GET'', Endpoint = endpoint [''version'', versionUUID], Body = None,
               Header = plain\<rparr>])"
    unfolding unsent_def endpoint_def plain_def
    by (simp add: GetZoneVersion_def slice_authZone newJSONRequest_def sent_do sent_same)
  have create: "sent w (snd (CreateZoneVersion env c authZone versionName w)) =
       (if \<not> Encode env (NamePayload ''lego_tmp'') \<or> unsent ''POST'' [''version''] then []
        else [\<lparr>Method = ''POST'', Endpoint = endpoint [''version''],
               Body = Some (NamePayload ''lego_tmp''), Header = typed\<rparr>])"
    unfolding unsent_def endpoint_def typed_def
    by (simp add: CreateZoneVersion_def slice_authZone newJSONRequest_def sent_do sent_same
        Let_def)
  have delete: "sent w (snd (DeleteZoneVersion env c authZone versionUUID w)) =
       (if unsent ''DELETE'' [''version'', versionUUID] then []
        else [\<lparr>Method = ''DELETE'', Endpoint = endpoint [''version'', versionUUID], Body = None,
               Header = plain\<rparr>])"
    unfolding unsent_def endpoint_def plain_def
    by (simp add: DeleteZoneVersion_def slice_authZone newJSONRequest_def sent_do sent_same)
  have records: "sent w (snd (GetAllRecords env c authZone versionUUID w)) =
       (if unsent ''GET'' [''version'', versionUUID, ''zone''] then []
        else [\<lparr>Method = ''GET'', Endpoint = endpoint [''version'', versionUUID, ''zone''],
               Body = None, Header = plain\<rparr>])"
    unfolding unsent_def endpoint_def plain_def
    by (simp add: GetAllRecords_def slice_authZone newJSONRequest_def sent_do sent_same)
  have enable: "sent w (snd (EnableZone env c authZone versionUUID w)) =
       (if unsent ''PATCH'' [''version'', versionUUID, ''enable''] then []
        else [\<lparr>Method = ''PATCH'', Endpoint = endpoint [''version'', versionUUID, ''enable''],
               Body = None, Header = plain\<rparr>])"
    unfolding unsent_def endpoint_def plain_def
    by (simp add: EnableZone_def slice_authZone newJSONRequest_def sent_do sent_same)
  have post: "sent w (snd (CreateRecord env c authZone versionUUID rcd w)) =
       (if \<not> Encode env (RecordPayload (rcd\<lparr>Priority := 12\<rparr>))
           \<or> unsent ''POST'' [''version'', versionUUID, ''zone''] then []
        else [\<lparr>Method = ''POST'', Endpoint = endpoint [''version'', versionUUID, ''zone''],
               Body = Some (RecordPayload (rcd\<lparr>Priority := 12\<rparr>)), Header = typed\<rparr>])"
    unfolding unsent_def endpoint_def typed_def
    using payload
    by (simp add: CreateRecord_def slice_authZone newJSONRequest_def sent_do sent_same Let_def)
  note through = snd_FindActiveZoneVersion [of env c authZone w]
    snd_FindZoneVersion [of env c authZone versionName w]
    snd_GetRecord [of env c authZone versionUUID recordName recordType w]
    snd_ReadVersionUUID [of env c authZone versionUUID w]
  have failed: "GetAllRecords env c authZone versionUUID w = (Inl e, w1) \<longrightarrow>
        DuplicateZoneVersionRecords env c authZone versionUUID targetVersionUUID w = (Inl e, w1)"
    using DuplicateZoneVersionRecords_error by blast
  have copied: "GetAllRecords env c authZone versionUUID w = (Inr records, w1)
        \<and> DuplicateZoneVersionRecords env c authZone versionUUID targetVersionUUID w =
            (Inr (), w2) \<longrightarrow>
        sent w w2 =
          \<lparr>Method = ''GET'', Endpoint = endpoint [''version'', versionUUID, ''zone''], Body = None,
           Header = plain\<rparr> #
          map (\<lambda>r. \<lparr>Method = ''POST'',
                     Endpoint = endpoint [''version'', targetVersionUUID, ''zone''],
                     Body = Some (RecordPayload
                              \<lparr>Type = Type r, Name = Record.Name r, Value = Value r,
                               TTL = Record.TTL r, Priority = 12\<rparr>),
                     Header = typed\<rparr>)
            (filter (\<lambda>r. prefix ''A'' (Type r) \<or> sublist ''AAAA'' (Type r)
                        \<or> sublist ''CNAME'' (Type r) \<or> sublist ''MX'' (Type r)
                        \<or> sublist ''SRV'' (Type r) \<or> suffix ''TXT'' (Type r)) records)"
    unfolding endpoint_def plain_def typed_def
    using DuplicateZoneVersionRecords_success
      [of env c authZone versionUUID w records w1 targetVersionUUID w2]
    by blast
  show ?thesis
    using panics segments list get create delete records enable post through failed copied
    by (intro conjI)
qed

theorem domain_segment_is_butlast_witness:
  "ListAllVersions registrarEnv example_client [] example_world = (Inl (Panic (SliceBoundsOutOfRange 0 (- 1) 0)), example_world)
   \<and> DeleteZoneVersion registrarEnv example_client [] ''v-live'' example_world = (Inl (Panic (SliceBoundsOutOfRange 0 (- 1) 0)), example_world)
   \<and> map (\<lambda>r. (Method r, Endpoint r))
       (sent example_world (snd (ListAllVersions registrarEnv example_client ''example.comX'' example_world))) =
     [(''GET'', JoinPath (Parse DefaultBaseURL) [''domain'', ''example.com'', ''version''])]
   \<and> map (\<lambda>r. (Method r, Endpoint r))
       (sent example_world (snd (GetZoneVersion registrarEnv example_client ''example.comX'' ''v-live'' example_world))) =
     [(''GET'', JoinPath (Parse DefaultBaseURL) [''domain'', ''example.com'', ''version'', ''v-live''])]
   \<and> map (\<lambda>r. (Method r, Endpoint r))
       (sent example_world (snd (CreateZoneVersion registrarEnv example_client ''example.comX'' ''my_version'' example_world))) =
     [(''POST'', JoinPath (Parse DefaultBaseURL) [''domain'', ''example.com'', ''version''])]
   \<and> map (\<lambda>r. (Method r, Endpoint r))
       (sent example_world (snd (DeleteZoneVersion registrarEnv example_client ''example.comX'' ''v-live'' example_world))) =
     [(''DELETE'', JoinPath (Parse DefaultBaseURL) [''domain'', ''example.com'', ''version'', ''v-live''])]
   \<and> map (\<lambda>r. (Method r, Endpoint r))
       (sent example_world (snd (GetAllRecords registrarEnv example_client ''example.comX'' ''v-live'' example_world))) =
     [(''GET'', JoinPath (Parse DefaultBaseURL) [''domain'', ''example.com'', ''version'', ''v-live'', ''zone''])]
   \<and> map (\<lambda>r. (Method r, Endpoint r))
       (sent example_world (snd (EnableZone registrarEnv example_client ''example.comX'' ''v-live'' example_world))) =
     [(''PATCH'', JoinPath (Parse DefaultBaseURL) [''domain'', ''example.com'', ''version'', ''v-live'', ''enable''])]
   \<and> map (\<lambda>r. (Method r, Endpoint r))
       (sent example_world (snd (CreateRecord registrarEnv example_client ''example.comX'' ''v-live'' (mk_record ''TXT'' ''_acme-challenge'' ''value'' 120) example_world))) =
     [(''POST'', JoinPath (Parse DefaultBaseURL) [''domain'', ''example.com'', ''version'', ''v-live'', ''zone''])]
   \<and> map (\<lambda>r. (Method r, Endpoint r, map_option (\<lambda>p. case p of RecordPayload x \<Rightarrow> Type x | NamePayload n \<Rightarrow> n) (Request.Body r)))
       (sent example_world (snd (DuplicateZoneVersionRecords registrarEnv example_client ''example.com.'' ''v-four'' ''v-empty'' example_world))) =
     [(''GET'', JoinPath (Parse DefaultBaseURL) [''domain'', ''example.com'', ''version'', ''v-four'', ''zone''], None),
      (''POST'', JoinPath (Parse DefaultBaseURL) [''domain'', ''example.com'', ''version'', ''v-empty'', ''zone''], Some ''A''),
      (''POST'', JoinPath (Parse DefaultBaseURL) [''domain'', ''example.com'', ''version'', ''v-empty'', ''zone''], Some ''TXT'')]"
proof -
  have empty: "([] :: string) = []"
    by simp
  note E = domain_segment_is_butlast
    [where authZone = "[]" and env = registrarEnv and c = example_client and w = example_world
       and versionUUID = "''v-live''", THEN conjunct1, THEN mp, OF empty]
  from E [THEN conjunct1]
  have p1: "ListAllVersions registrarEnv example_client [] example_world = (Inl (Panic (SliceBoundsOutOfRange 0 (- 1) 0)), example_world)" .
  from E [THEN conjunct2, THEN conjunct2, THEN conjunct2, THEN conjunct2, THEN conjunct2,
          THEN conjunct1]
  have p2: "DeleteZoneVersion registrarEnv example_client [] ''v-live'' example_world = (Inl (Panic (SliceBoundsOutOfRange 0 (- 1) 0)), example_world)" .
  note T = domain_segment_is_butlast
    [where authZone = "''example.comX''" and env = registrarEnv and c = example_client and w = example_world
       and versionUUID = "''v-live''" and versionName = "''my_version''"
       and rcd = "mk_record ''TXT'' ''_acme-challenge'' ''value'' 120"]
  from T [THEN conjunct2, THEN conjunct2, THEN conjunct1]
  have q0: "map (\<lambda>r. (Method r, Endpoint r))
       (sent example_world (snd (ListAllVersions registrarEnv example_client ''example.comX'' example_world))) =
     [(''GET'', JoinPath (Parse DefaultBaseURL) [''domain'', ''example.com'', ''version''])]"
    by (simp add: registrarEnv_def example_client_def)
  from T [THEN conjunct2, THEN conjunct2, THEN conjunct2, THEN conjunct1]
  have q1: "map (\<lambda>r. (Method r, Endpoint r))
       (sent example_world (snd (GetZoneVersion registrarEnv example_client ''example.comX'' ''v-live'' example_world))) =
     [(''GET'', JoinPath (Parse DefaultBaseURL) [''domain'', ''example.com'', ''version'', ''v-live''])]"
    by (simp add: registrarEnv_def example_client_def)
  from T [THEN conjunct2, THEN conjunct2, THEN conjunct2, THEN conjunct2, THEN conjunct1]
  have q2: "map (\<lambda>r. (Method r, Endpoint r))
       (sent example_world (snd (CreateZoneVersion registrarEnv example_client ''example.comX'' ''my_version'' example_world))) =
     [(''POST'', JoinPath (Parse DefaultBaseURL) [''domain'', ''example.com'', ''version''])]"
    by (simp add: registrarEnv_def example_client_def)
  from T [THEN conjunct2, THEN conjunct2, THEN conjunct2, THEN conjunct2, THEN conjunct2, THEN conjunct1]
  have q3: "map (\<lambda>r. (Method r, Endpoint r))
       (sent example_world (snd (DeleteZoneVersion registrarEnv example_client ''example.comX'' ''v-live'' example_world))) =
     [(''DELETE'', JoinPath (Parse DefaultBaseURL) [''domain'', ''example.com'', ''version'', ''v-live''])]"
    by (simp add: registrarEnv_def example_client_def)
  from T [THEN conjunct2, THEN conjunct2, THEN conjunct2, THEN conjunct2, THEN conjunct2, THEN conjunct2, THEN conjunct1]
  have q4: "map (\<lambda>r. (Method r, Endpoint r))
       (sent example_world (snd (GetAllRecords registrarEnv example_client ''example.comX'' ''v-live'' example_world))) =
     [(''GET'', JoinPath (Parse DefaultBaseURL) [''domain'', ''example.com'', ''version'', ''v-live'', ''zone''])]"
    by (simp add: registrarEnv_def example_client_def)
  from T [THEN conjunct2, THEN conjunct2, THEN conjunct2, THEN conjunct2, THEN conjunct2, THEN conjunct2, THEN conjunct2, THEN conjunct1]
  have q5: "map (\<lambda>r. (Method r, Endpoint r))
       (sent example_world (snd (EnableZone registrarEnv example_client ''example.comX'' ''v-live'' example_world))) =
     [(''PATCH'', JoinPath (Parse DefaultBaseURL) [''domain'', ''example.com'', ''version'', ''v-live'', ''enable''])]"
    by (simp add: registrarEnv_def example_client_def)
  from T [THEN conjunct2, THEN conjunct2, THEN conjunct2, THEN conjunct2, THEN conjunct2, THEN conjunct2, THEN conjunct2, THEN conjunct2, THEN conjunct1]
  have q6: "map (\<lambda>r. (Method r, Endpoint r))
       (sent example_world (snd (CreateRecord registrarEnv example_client ''example.comX'' ''v-live'' (mk_record ''TXT'' ''_acme-challenge'' ''value'' 120) example_world))) =
     [(''POST'', JoinPath (Parse DefaultBaseURL) [''domain'', ''example.com'', ''version'', ''v-live'', ''zone''])]"
    by (simp add: registrarEnv_def example_client_def)
  let ?four = "[mk_record ''A'' ''www'' ''10.0.0.4'' 300,
                mk_record ''NS'' ''@'' ''ns.example.com.'' 300,
                mk_record ''TXT'' ''@'' ''hello'' 300,
                mk_record ''SOA'' ''@'' ''ns.example.com. root.example.com.'' 300]"
  have listed: "GetAllRecords registrarEnv example_client ''example.com.'' ''v-four'' example_world =
      (Inr ?four, snd (GetAllRecords registrarEnv example_client ''example.com.'' ''v-four'' example_world))"
    by code_simp
  have copied: "DuplicateZoneVersionRecords registrarEnv example_client ''example.com.'' ''v-four'' ''v-empty'' example_world =
      (Inr (), snd (DuplicateZoneVersionRecords registrarEnv example_client ''example.com.'' ''v-four'' ''v-empty'' example_world))"
    by code_simp
  from domain_segment_is_butlast
    [where authZone = "''example.com.''" and env = registrarEnv and c = example_client and w = example_world
       and versionUUID = "''v-four''" and targetVersionUUID = "''v-empty''",
     THEN conjunct2, THEN conjunct2, THEN conjunct2, THEN conjunct2, THEN conjunct2, THEN conjunct2, THEN conjunct2, THEN conjunct2, THEN conjunct2, THEN conjunct2, THEN conjunct2, THEN conjunct2, THEN conjunct2, THEN conjunct2, THEN mp, OF conjI, OF listed copied]
  have d: "map (\<lambda>r. (Method r, Endpoint r, map_option (\<lambda>p. case p of RecordPayload x \<Rightarrow> Type x | NamePayload n \<Rightarrow> n) (Request.Body r)))
       (sent example_world (snd (DuplicateZoneVersionRecords registrarEnv example_client ''example.com.'' ''v-four'' ''v-empty'' example_world))) =
     [(''GET'', JoinPath (Parse DefaultBaseURL) [''domain'', ''example.com'', ''version'', ''v-four'', ''zone''], None),
      (''POST'', JoinPath (Parse DefaultBaseURL) [''domain'', ''example.com'', ''version'', ''v-empty'', ''zone''], Some ''A''),
      (''POST'', JoinPath (Parse DefaultBaseURL) [''domain'', ''example.com'', ''version'', ''v-empty'', ''zone''], Some ''TXT'')]"
    by (simp add: example_client_def mk_record_def sublist_Cons_right suffix_to_prefix)
  from p1 p2 q0 q1 q2 q3 q4 q5 q6 d show ?thesis
    by (intro conjI)
qed

end
